theory Spec2Isabelle
  imports Complex_Main "HOL-Library.Multiset"
begin

section \<open>Strings\<close>

text \<open>
  Node type names are ASCII identifiers such as \<^verbatim>\<open>n8n-nodes-base.manualTrigger\<close>.
  \<^verbatim>\<open>String.prototype.toLowerCase\<close> is modelled on ASCII letters (it sets bit 5 of
  \<^verbatim>\<open>A\<close>..\<^verbatim>\<open>Z\<close>), \<^verbatim>\<open>endsWith\<close> and \<^verbatim>\<open>includes\<close> are the usual suffix and
  substring tests.
\<close>

fun toLowerCaseChar :: "char \<Rightarrow> char" where
  "toLowerCaseChar (Char b0 b1 b2 b3 b4 b5 b6 b7) =
     (let k = (of_char (Char b0 b1 b2 b3 b4 b5 b6 b7) :: nat)
      in if 65 \<le> k \<and> k \<le> 90 then Char b0 b1 b2 b3 b4 True b6 b7
         else Char b0 b1 b2 b3 b4 b5 b6 b7)"

definition toLowerCase :: "string \<Rightarrow> string" where
  "toLowerCase s = map toLowerCaseChar s"

definition endsWith :: "string \<Rightarrow> string \<Rightarrow> bool" where
  "endsWith s suffix =
     (length suffix \<le> length s \<and> drop (length s - length suffix) s = suffix)"

fun includes_str :: "string \<Rightarrow> string \<Rightarrow> bool" where
  "includes_str [] sub = (sub = [])"
| "includes_str (c # cs) sub = (take (length sub) (c # cs) = sub \<or> includes_str cs sub)"

text \<open>JavaScript truthiness of an optional string: \<^verbatim>\<open>undefined\<close> and \<^verbatim>\<open>""\<close> are falsy.\<close>

fun truthy :: "string option \<Rightarrow> bool" where
  "truthy None = False"
| "truthy (Some s) = (s \<noteq> [])"

text \<open>
  Reading \<^verbatim>\<open>obj[key]\<close> on a plain object finds the object's own property or, when it
  has none of that name, the property of that name inherited from \<^verbatim>\<open>Object.prototype\<close>.
  The inherited properties are functions, and \<^verbatim>\<open>__proto__\<close> is the prototype object:
  all of them are truthy. The dictionaries read in this way below (pin data, run data)
  hold arrays, which are truthy too.
\<close>

definition objectPrototypeProperties :: "string list" where
  "objectPrototypeProperties =
     [''constructor'', ''__defineGetter__'', ''__defineSetter__'', ''hasOwnProperty'',
      ''__lookupGetter__'', ''__lookupSetter__'', ''isPrototypeOf'', ''propertyIsEnumerable'',
      ''toString'', ''valueOf'', ''__proto__'', ''toLocaleString'']"

definition hasTruthyProperty :: "(string \<rightharpoonup> 'v) \<Rightarrow> string \<Rightarrow> bool" where
  "hasTruthyProperty obj key = (obj key \<noteq> None \<or> key \<in> set objectPrototypeProperties)"

section \<open>Array.prototype.sort\<close>

text \<open>
  The service sorts with a comparator that looks at its first argument only, so the order
  it produces is whatever the runtime's algorithm makes of it. The model follows the
  Node.js runtime (V8) on arrays shorter than 64 elements, which is one run detection
  followed by binary insertion:
  \<^item> \<^verbatim>\<open>CountAndMakeRun\<close> compares element 1 with element 0 (\<open>comparefn a\<^sub>1 a\<^sub>0\<close>); the run
    is descending when the result is negative. It is extended while each next element
    compared with its predecessor keeps that direction, and a descending run is reversed
    in place.
  \<^item> \<^verbatim>\<open>BinaryInsertionSort\<close> inserts each remaining element \<open>pivot\<close> into the sorted
    prefix: \<open>left = 0\<close>, \<open>right = start\<close>, and while \<open>left < right\<close> it takes
    \<open>mid = left + ((right - left) >> 1)\<close> and goes left when \<open>comparefn pivot a\<^sub>m\<^sub>i\<^sub>d < 0\<close>,
    right otherwise.
\<close>

fun extendRun :: "('a \<Rightarrow> 'a \<Rightarrow> int) \<Rightarrow> bool \<Rightarrow> 'a \<Rightarrow> 'a list \<Rightarrow> nat" where
  "extendRun comparefn isDescending previousElement [] = 0"
| "extendRun comparefn isDescending previousElement (currentElement # rest) =
     (let order = comparefn currentElement previousElement
      in if (if isDescending then order \<ge> 0 else order < 0) then 0
         else Suc (extendRun comparefn isDescending currentElement rest))"

fun countAndMakeRun :: "('a \<Rightarrow> 'a \<Rightarrow> int) \<Rightarrow> 'a list \<Rightarrow> 'a list \<times> 'a list" where
  "countAndMakeRun comparefn (elementHigh # elementLow # rest) =
     (let isDescending = comparefn elementLow elementHigh < 0;
          runLength = 2 + extendRun comparefn isDescending elementLow rest;
          run = take runLength (elementHigh # elementLow # rest)
      in (if isDescending then rev run else run,
          drop runLength (elementHigh # elementLow # rest)))"
| "countAndMakeRun comparefn workArray = (workArray, [])"

function binarySearch :: "('a \<Rightarrow> 'a \<Rightarrow> int) \<Rightarrow> 'a \<Rightarrow> 'a list \<Rightarrow> nat \<Rightarrow> nat \<Rightarrow> nat" where
  "binarySearch comparefn pivot workArray left right =
     (if left < right then
        (let mid = left + (right - left) div 2
         in if comparefn pivot (workArray ! mid) < 0
            then binarySearch comparefn pivot workArray left mid
            else binarySearch comparefn pivot workArray (mid + 1) right)
      else left)"
  by pat_completeness auto
termination
  by (relation "measure (\<lambda>(comparefn, pivot, workArray, left, right). right - left)") auto

declare binarySearch.simps [simp del]

fun binaryInsertionSort :: "('a \<Rightarrow> 'a \<Rightarrow> int) \<Rightarrow> 'a list \<Rightarrow> 'a list \<Rightarrow> 'a list" where
  "binaryInsertionSort comparefn sorted_prefix [] = sorted_prefix"
| "binaryInsertionSort comparefn sorted_prefix (pivot # rest) =
     (let left = binarySearch comparefn pivot sorted_prefix 0 (length sorted_prefix)
      in binaryInsertionSort comparefn
           (take left sorted_prefix @ pivot # drop left sorted_prefix) rest)"

definition js_sort :: "('a \<Rightarrow> 'a \<Rightarrow> int) \<Rightarrow> 'a list \<Rightarrow> 'a list" where
  "js_sort comparefn array =
     (if length array < 2 then array
      else (let (run, rest) = countAndMakeRun comparefn array
            in binaryInsertionSort comparefn run rest))"

text \<open>A list is partitioned by \<open>P\<close> when the elements with \<open>P\<close> come first.\<close>

definition partitioned :: "('a \<Rightarrow> bool) \<Rightarrow> 'a list \<Rightarrow> bool" where
  "partitioned P xs =
     (\<exists>ws ts. xs = ws @ ts \<and> (\<forall>x\<in>set ws. P x) \<and> (\<forall>x\<in>set ts. \<not> P x))"

section \<open>Data model\<close>

text \<open>
  The interfaces of the service, with their field names. An optional field is an \<open>option\<close>
  (\<^verbatim>\<open>undefined\<close> and \<^verbatim>\<open>null\<close> are \<open>None\<close>); an object used as a dictionary is a finite
  map, or an association list where the order of its keys is read.
\<close>

datatype json_value =
  JNull | JBool bool | JNum int | JStr string | JArr "json_value list"
  | JObj "(string \<times> json_value) list"

type_synonym IDataObject = "(string \<times> json_value) list"

record INodeExecutionData =
  json :: IDataObject

type_synonym IPinData = "string \<rightharpoonup> INodeExecutionData list"

text \<open>Run data maps a node name to its recorded task data, kept opaque here.\<close>

type_synonym IRunData = "string \<rightharpoonup> json_value list"

record INode =
  name :: string
  type :: string
  typeVersion :: rat
  disabled :: bool

datatype IConnection = IConnection (node: string) (conn_type: string) (index: nat)

type_synonym IConnections = "(string \<times> (string \<times> IConnection list option list) list) list"

record IWorkflowBase =
  id :: string
  name :: string
  nodes :: "INode list"
  connections :: IConnections
  active :: bool
  pinData :: "IPinData option"
  staticData :: "json_value option"
  settings :: "json_value option"

text \<open>
  The \<^verbatim>\<open>Workflow\<close> class of the graph engine is a collaborator: its constructor is a
  parameter of the service model (\<open>WorkflowParameters\<close> is the object it is given), and
  an instance offers the node dictionary (in key order), the ancestor query and the
  start-node query.
\<close>

record WorkflowParameters =
  id :: "string option"
  name :: "string option"
  nodes :: "INode list"
  connections :: IConnections
  active :: bool
  staticData :: "json_value option"
  settings :: "json_value option"

record Workflow =
  nodes :: "(string \<times> INode) list"
  getParentNodes :: "string \<Rightarrow> string list"
  getStartNode :: "INode option"

text \<open>
  Modelled from the spec: \<^verbatim>\<open>Workflow.getNode\<close> belongs to the graph engine, whose source
  is not at hand. It resolves a node by name in the instance's dictionary and answers
  \<^verbatim>\<open>null\<close> when no node has that name.
\<close>

definition getNode :: "Workflow \<Rightarrow> string \<Rightarrow> INode option" where
  "getNode = (\<lambda>workflowInstance nodeName. map_of (Workflow.nodes workflowInstance) nodeName)"

record StartNodeData =
  name :: string
  sourceData :: "json_value option"

record TriggerToStartFrom =
  name :: string

record ManualRunPayload =
  workflowData :: IWorkflowBase
  runData :: "IRunData option"
  startNodes :: "StartNodeData list option"
  destinationNode :: "string option"
  dirtyNodeNames :: "string list option"
  triggerToStartFrom :: "TriggerToStartFrom option"
  agentRequest :: "json_value option"

record TriggerData =
  triggerName :: string
  payload :: IDataObject

record ExecuteOptions =
  destinationNode :: "string option"
  executionId :: "string option"
  dirtyNodes :: "string list option"
  triggerData :: "TriggerData option"

record User =
  id :: string

record Project =
  id :: string

text \<open>
  The HTTP response object is opaque. The additional data of an execution is built by
  \<^verbatim>\<open>WorkflowExecuteAdditionalData.getBase\<close> for a user and a workflow.
\<close>

typedecl Response

record IWorkflowExecuteAdditionalData =
  userId :: string
  workflowId :: string

record NeedsWebhookOptions =
  userId :: string
  workflowEntity :: IWorkflowBase
  additionalData :: IWorkflowExecuteAdditionalData
  runData :: "IRunData option"
  pushRef :: "string option"
  destinationNode :: "string option"
  triggerToStartFrom :: "TriggerToStartFrom option"

text \<open>The execution state handed to the run engine (\<^verbatim>\<open>IRunExecutionData\<close>).\<close>

record ParentExecution =
  executionId :: string
  workflowId :: string

record ExecuteMetadata =
  parentExecution :: ParentExecution

record ITaskDataConnections =
  main :: "INodeExecutionData list list"

record IExecuteData =
  node :: INode
  data :: ITaskDataConnections
  source :: "json_value option"
  metadata :: "ExecuteMetadata option"

record StartData =
  startNodes :: "StartNodeData list option"
  destinationNode :: "string option"

record ResultData =
  pinData :: "IPinData option"
  runData :: "IRunData option"

record ManualData =
  userId :: "string option"
  dirtyNodeNames :: "string list option"
  triggerToStartFrom :: "TriggerToStartFrom option"

record ExecutionStackData =
  nodeExecutionStack :: "IExecuteData list"

record IRunExecutionData =
  startData :: StartData
  resultData :: ResultData
  executionData :: "ExecutionStackData option"
  manualData :: "ManualData option"

record IWorkflowExecutionDataProcess =
  destinationNode :: "string option"
  executionMode :: string
  runData :: "IRunData option"
  pinData :: "IPinData option"
  pushRef :: "string option"
  startNodes :: "StartNodeData list option"
  workflowData :: IWorkflowBase
  userId :: "string option"
  dirtyNodeNames :: "string list option"
  triggerToStartFrom :: "TriggerToStartFrom option"
  agentRequest :: "json_value option"
  streamingEnabled :: "bool option"
  httpResponse :: "Response option"
  executionData :: "IRunExecutionData option"
  projectId :: "string option"

text \<open>A stored execution, as far as the service reads it.\<close>

record IExecutionResponse =
  data :: "IRunExecutionData option"

text \<open>
  The description of a failure given to the error-workflow invoker
  (\<^verbatim>\<open>IWorkflowErrorData\<close>), with the fields the invoker reads.
\<close>

record ErrorDataExecution =
  id :: "string option"
  lastNodeExecuted :: "string option"

record ErrorDataWorkflow =
  id :: "string option"
  name :: string

record IWorkflowErrorData =
  execution :: "ErrorDataExecution option"
  workflow :: ErrorDataWorkflow

section \<open>Exceptions\<close>

text \<open>
  What can be thrown: the errors the service itself raises, any other \<^verbatim>\<open>Error\<close> object
  of a collaborator, and the values \<^verbatim>\<open>null\<close> and \<^verbatim>\<open>undefined\<close>, with which a promise
  can be rejected as well. Reading \<^verbatim>\<open>error.message\<close> gives the message of an error
  object and raises a \<^verbatim>\<open>TypeError\<close> on \<^verbatim>\<open>null\<close> and \<^verbatim>\<open>undefined\<close>.
\<close>

datatype exn =
  NotFoundError string
  | BadRequestError string
  | SubworkflowOperationError string string
  | Error string
  | TypeError string
  | Thrown_null
  | Thrown_undefined

fun message :: "exn \<Rightarrow> exn + string" where
  "message (NotFoundError m) = Inr m"
| "message (BadRequestError m) = Inr m"
| "message (SubworkflowOperationError m description) = Inr m"
| "message (Error m) = Inr m"
| "message (TypeError m) = Inr m"
| "message Thrown_null =
     Inl (TypeError ''Cannot read properties of null (reading 'message')'')"
| "message Thrown_undefined =
     Inl (TypeError ''Cannot read properties of undefined (reading 'message')'')"

text \<open>The record generated for a blocked error workflow, and what is stored of it.\<close>

record FailedExecution =
  data :: IRunExecutionData
  mode :: string
  status :: string

record CreateExecutionPayload =
  data :: IRunExecutionData
  mode :: string
  finished :: bool
  stoppedAt :: "nat option"
  workflowData :: IWorkflowBase
  waitTill :: "nat option"
  status :: string
  workflowId :: string

section \<open>Collaborators and effects\<close>

text \<open>
  The injected collaborators of \<^verbatim>\<open>WorkflowExecutionService\<close>. A call that can raise
  returns \<open>Inl\<close> of the exception. The node-type registry is read through
  \<^verbatim>\<open>getByNameAndVersion(type, version).description.group\<close>; the clock is \<^verbatim>\<open>new Date()\<close>.
\<close>

record Services =
  nodeTypes_group :: "string \<Rightarrow> rat \<Rightarrow> exn + string list"
  newWorkflow :: "WorkflowParameters \<Rightarrow> Workflow"
  workflowRepository_findOneBy :: "string \<Rightarrow> exn + IWorkflowBase option"
  executionRepository_findSingleExecution :: "string \<Rightarrow> exn + IExecutionResponse option"
  executionRepository_createNewExecution :: "CreateExecutionPayload \<Rightarrow> exn + string"
  getBase :: "string \<Rightarrow> string \<Rightarrow> exn + IWorkflowExecuteAdditionalData"
  testWebhooks_needsWebhook :: "NeedsWebhookOptions \<Rightarrow> exn + bool"
  workflowRunner_run :: "IWorkflowExecutionDataProcess \<Rightarrow> exn + string"
  subworkflowPolicyChecker_check :: "Workflow \<Rightarrow> string option \<Rightarrow> INode option \<Rightarrow> exn + unit"
  generateFailedExecutionFromError :: "string \<Rightarrow> exn \<Rightarrow> INode \<Rightarrow> exn + FailedExecution"
  globalConfig_executions_mode :: string
  globalConfig_nodes_errorTriggerType :: string
  env_OFFLOAD_MANUAL_EXECUTIONS_TO_WORKERS :: "string option"
  new_Date :: nat

text \<open>
  What a request does to its collaborators, in order: the calls with an effect outside the
  service. Calls to \<^verbatim>\<open>logger.debug\<close> are left out.
\<close>

datatype Event =
  NeedsWebhook NeedsWebhookOptions
  | Run IWorkflowExecutionDataProcess
  | CreateNewExecution CreateExecutionPayload
  | LoggerError string
  | LoggerInfo string
  | ErrorReporterError exn

fun isRun :: "Event \<Rightarrow> bool" where
  "isRun (Run d) = True"
| "isRun e = False"

text \<open>The payloads handed to the run engine, in order.\<close>

definition runPayloads :: "Event list \<Rightarrow> IWorkflowExecutionDataProcess list" where
  "runPayloads = (\<lambda>events.
     concat (map (\<lambda>e. case e of Run d \<Rightarrow> [d] | _ \<Rightarrow> []) events))"

section \<open>Pinned-activator selector\<close>

definition findAllPinnedActivators :: "IWorkflowBase \<Rightarrow> IPinData option \<Rightarrow> INode list" where
  "findAllPinnedActivators = (\<lambda>workflow pinData.
     js_sort (\<lambda>a b. if endsWith (INode.type a) ''webhook'' then - 1 else 1)
       (filter
          (\<lambda>node. \<not> disabled node \<and>
             (case pinData of
                None \<Rightarrow> False | Some pd \<Rightarrow> hasTruthyProperty pd (INode.name node)) \<and>
             list_ex (\<lambda>suffix. endsWith (toLowerCase (INode.type node)) suffix)
               [''trigger'', ''webhook''] \<and>
             INode.type node \<noteq> ''n8n-nodes-base.respondToWebhook'')
          (IWorkflowBase.nodes workflow)))"

text \<open>
  The graph the selector queries: \<^verbatim>\<open>new Workflow({nodes, connections, active, nodeTypes})\<close>.
\<close>

definition graphOf :: "Services \<Rightarrow> IWorkflowBase \<Rightarrow> Workflow" where
  "graphOf = (\<lambda>this workflow.
     newWorkflow this
       \<lparr>WorkflowParameters.id = None, name = None,
        nodes = IWorkflowBase.nodes workflow,
        connections = IWorkflowBase.connections workflow,
        active = IWorkflowBase.active workflow,
        staticData = None, settings = None\<rparr>)"

definition selectPinnedActivatorStarter ::
  "Services \<Rightarrow> IWorkflowBase \<Rightarrow> string list option \<Rightarrow> IPinData option \<Rightarrow> string option \<Rightarrow>
   INode option" where
  "selectPinnedActivatorStarter = (\<lambda>this workflow startNodes pinData destinationNode.
     case (pinData, startNodes) of
       (Some pd, Some startNodeNames) \<Rightarrow>
         (let allPinnedActivators = findAllPinnedActivators workflow pinData
          in case allPinnedActivators of
               [] \<Rightarrow> None
             | firstPinnedActivator # _ \<Rightarrow>
                 (case startNodeNames of
                    [] \<Rightarrow>
                      (case (case destinationNode of
                               None \<Rightarrow> None
                             | Some d \<Rightarrow>
                                 if d \<noteq> [] then
                                   find (\<lambda>a. INode.name a \<in> set (getParentNodes (graphOf this workflow) d))
                                     allPinnedActivators
                                 else None) of
                         Some activator \<Rightarrow> Some activator
                       | None \<Rightarrow> Some firstPinnedActivator)
                  | firstStartNodeName # _ \<Rightarrow>
                      (let parentNodeNames =
                             getParentNodes (graphOf this workflow) firstStartNodeName
                       in if length parentNodeNames > 0 then
                            (case find (\<lambda>p. p = INode.name firstPinnedActivator)
                                    parentNodeNames of
                               None \<Rightarrow> None
                             | Some parentNodeName \<Rightarrow>
                                 find (\<lambda>pa. INode.name pa = parentNodeName) allPinnedActivators)
                          else find (\<lambda>pa. INode.name pa = firstStartNodeName)
                                 allPinnedActivators)))
     | _ \<Rightarrow> None)"

section \<open>Manual execution\<close>

definition isDestinationNodeATrigger :: "Services \<Rightarrow> string \<Rightarrow> IWorkflowBase \<Rightarrow> exn + bool" where
  "isDestinationNodeATrigger = (\<lambda>this destinationNode workflow.
     let node = find (\<lambda>n. INode.name n = destinationNode) (IWorkflowBase.nodes workflow)
     in case node of
          None \<Rightarrow> Inr False
        | Some n \<Rightarrow>
            (case nodeTypes_group this (INode.type n) (typeVersion n) of
               Inl e \<Rightarrow> Inl e
             | Inr description_group \<Rightarrow> Inr (''trigger'' \<in> set description_group)))"

record ManualResult =
  executionId :: "string option"
  waitingForWebhook :: "bool option"

definition hasRunData :: "IRunData option \<Rightarrow> INode \<Rightarrow> bool" where
  "hasRunData = (\<lambda>runData node.
     case runData of None \<Rightarrow> False | Some rd \<Rightarrow> hasTruthyProperty rd (INode.name node))"

text \<open>
  The webhook check of \<^verbatim>\<open>executeManually\<close>: the base of the additional data is fetched
  and the test-webhook service is asked whether the execution has to wait for a call.
\<close>

definition waitForWebhook ::
  "Services \<Rightarrow> User \<Rightarrow> IWorkflowBase \<Rightarrow> IRunData option \<Rightarrow> string option \<Rightarrow> string option \<Rightarrow>
   TriggerToStartFrom option \<Rightarrow> (exn + bool) \<times> Event list" where
  "waitForWebhook = (\<lambda>this user workflowData runData pushRef destinationNode
                       triggerToStartFrom.
     case getBase this (User.id user) (IWorkflowBase.id workflowData) of
       Inl e \<Rightarrow> (Inl e, [])
     | Inr base \<Rightarrow>
         (let webhookOptions =
                \<lparr>NeedsWebhookOptions.userId = User.id user,
                 workflowEntity = workflowData,
                 additionalData = base,
                 runData = runData,
                 pushRef = pushRef,
                 destinationNode = destinationNode,
                 triggerToStartFrom = triggerToStartFrom\<rparr>
          in (testWebhooks_needsWebhook this webhookOptions, [NeedsWebhook webhookOptions])))"

text \<open>
  \<^verbatim>\<open>executeManually\<close> destructures its request into locals and assigns to two of them,
  \<^verbatim>\<open>runData\<close> and \<^verbatim>\<open>pinnedTrigger\<close>. The model keeps the locals in the request record
  (an assignment to \<^verbatim>\<open>runData\<close> updates the field) and reads the method in two parts:
  \<^item> \<open>executeManually\<close>: the selection of the pinned trigger, the test whether the
    destination node is a trigger (which discards the run data) and the override by
    \<^verbatim>\<open>triggerToStartFrom\<close>;
  \<^item> \<open>startManualExecution\<close>: the rest of the method, from the webhook check on, with
    \<^verbatim>\<open>runData\<close> and \<^verbatim>\<open>pinnedTrigger\<close> as they are at that point.
  \<open>manualExecutionData\<close> is the object \<^verbatim>\<open>data\<close> handed to the run engine, with the start
  node replaced by the pinned trigger when that has no run data, and with the execution
  details added when manual executions are offloaded to workers.
\<close>

definition manualExecutionData ::
  "Services \<Rightarrow> ManualRunPayload \<Rightarrow> User \<Rightarrow> string option \<Rightarrow> bool option \<Rightarrow> Response option \<Rightarrow>
   IWorkflowBase \<Rightarrow> IPinData option \<Rightarrow> INode option \<Rightarrow> IWorkflowExecutionDataProcess" where
  "manualExecutionData = (\<lambda>this request user pushRef streamingEnabled httpResponse
                            workflowData pinData pinnedTrigger.
     let runData = ManualRunPayload.runData request;
         startNodes = ManualRunPayload.startNodes request;
         destinationNode = ManualRunPayload.destinationNode request;
         dirtyNodeNames = ManualRunPayload.dirtyNodeNames request;
         triggerToStartFrom = ManualRunPayload.triggerToStartFrom request;
         agentRequest = ManualRunPayload.agentRequest request;
         data =
           \<lparr>IWorkflowExecutionDataProcess.destinationNode = destinationNode,
            executionMode = ''manual'',
            runData = runData,
            pinData = pinData,
            pushRef = pushRef,
            startNodes = startNodes,
            workflowData = workflowData,
            userId = Some (User.id user),
            dirtyNodeNames = dirtyNodeNames,
            triggerToStartFrom = triggerToStartFrom,
            agentRequest = agentRequest,
            streamingEnabled = streamingEnabled,
            httpResponse = httpResponse,
            executionData = None,
            projectId = None\<rparr>;
         data =
           (case pinnedTrigger of
              None \<Rightarrow> data
            | Some pt \<Rightarrow>
                if \<not> hasRunData runData pt then
                  data\<lparr>IWorkflowExecutionDataProcess.startNodes :=
                    Some [\<lparr>StartNodeData.name = INode.name pt, sourceData = None\<rparr>]\<rparr>
                else data)
     in if globalConfig_executions_mode this = ''queue'' \<and>
           env_OFFLOAD_MANUAL_EXECUTIONS_TO_WORKERS this = Some ''true''
        then
          data\<lparr>IWorkflowExecutionDataProcess.executionData := Some
            \<lparr>startData =
               \<lparr>StartData.startNodes = IWorkflowExecutionDataProcess.startNodes data,
                destinationNode = destinationNode\<rparr>,
             resultData = \<lparr>ResultData.pinData = pinData, runData = runData\<rparr>,
             executionData = None,
             manualData = Some
               \<lparr>ManualData.userId = IWorkflowExecutionDataProcess.userId data,
                dirtyNodeNames = dirtyNodeNames,
                triggerToStartFrom = triggerToStartFrom\<rparr>\<rparr>\<rparr>
        else data)"

text \<open>
  A pinned trigger is ignored when there is a trigger to start from and it is another one.
\<close>

definition exceptOtherTrigger :: "INode option \<Rightarrow> TriggerToStartFrom option \<Rightarrow> INode option" where
  "exceptOtherTrigger = (\<lambda>pinnedTrigger triggerToStartFrom.
     case pinnedTrigger of
       None \<Rightarrow> None
     | Some pt \<Rightarrow>
         (case triggerToStartFrom of
            None \<Rightarrow> Some pt
          | Some t \<Rightarrow>
              if INode.name pt \<noteq> TriggerToStartFrom.name t then None else Some pt))"

definition startManualExecution ::
  "Services \<Rightarrow> ManualRunPayload \<Rightarrow> User \<Rightarrow> string option \<Rightarrow> bool option \<Rightarrow> Response option \<Rightarrow>
   IPinData option \<Rightarrow> INode option \<Rightarrow> (exn + ManualResult) \<times> Event list" where
  "startManualExecution = (\<lambda>this request user pushRef streamingEnabled httpResponse
                             pinData pinnedTrigger.
     let workflowData = ManualRunPayload.workflowData request;
         runData = ManualRunPayload.runData request;
         startNodes = ManualRunPayload.startNodes request;
         destinationNode = ManualRunPayload.destinationNode request;
         triggerToStartFrom = ManualRunPayload.triggerToStartFrom request
     in case (if pinnedTrigger = None \<and>
                 (runData = None \<or> startNodes = None \<or> startNodes = Some [] \<or>
                  destinationNode = None)
              then waitForWebhook this user workflowData runData pushRef destinationNode
                     triggerToStartFrom
              else (Inr False, [])) of
          (Inl e, events) \<Rightarrow> (Inl e, events)
        | (Inr True, events) \<Rightarrow>
            (Inr \<lparr>ManualResult.executionId = None, waitingForWebhook = Some True\<rparr>, events)
        | (Inr False, events) \<Rightarrow>
            (let data = manualExecutionData this request user pushRef streamingEnabled
                          httpResponse (workflowData\<lparr>IWorkflowBase.active := False\<rparr>)
                          pinData pinnedTrigger
             in case workflowRunner_run this data of
                  Inl e \<Rightarrow> (Inl e, events @ [Run data])
                | Inr newExecutionId \<Rightarrow>
                    (Inr \<lparr>ManualResult.executionId = Some newExecutionId,
                          waitingForWebhook = None\<rparr>,
                     events @ [Run data])))"

definition executeManually ::
  "Services \<Rightarrow> ManualRunPayload \<Rightarrow> User \<Rightarrow> string option \<Rightarrow> bool option \<Rightarrow> Response option \<Rightarrow>
   (exn + ManualResult) \<times> Event list" where
  "executeManually = (\<lambda>this request user pushRef streamingEnabled httpResponse.
     let workflowData = ManualRunPayload.workflowData request;
         startNodes = ManualRunPayload.startNodes request;
         destinationNode = ManualRunPayload.destinationNode request;
         triggerToStartFrom = ManualRunPayload.triggerToStartFrom request;
         pinData = IWorkflowBase.pinData workflowData;
         pinnedTrigger = selectPinnedActivatorStarter this workflowData
           (map_option (map StartNodeData.name) startNodes) pinData destinationNode
     in case (case destinationNode of
                None \<Rightarrow> Inr False
              | Some d \<Rightarrow>
                  if d \<noteq> [] then isDestinationNodeATrigger this d workflowData else Inr False) of
          Inl e \<Rightarrow> (Inl e, [])
        | Inr destinationIsTrigger \<Rightarrow>
            startManualExecution this
              (if destinationIsTrigger then request\<lparr>ManualRunPayload.runData := None\<rparr>
               else request)
              user pushRef streamingEnabled httpResponse pinData
              (exceptOtherTrigger pinnedTrigger triggerToStartFrom))"

section \<open>Execution-payload builder\<close>

text \<open>
  The builder assigns to \<^verbatim>\<open>payload.workflowData.pinData\<close>, and \<^verbatim>\<open>payload.workflowData\<close>
  is the workflow object it was given: the second component of the result is that object
  after the call, also when the call raises.
\<close>

definition dquote :: string where
  "dquote = [CHR 0x22]"

definition isActivatorNode :: "INode \<Rightarrow> bool" where
  "isActivatorNode = (\<lambda>node.
     \<not> disabled node \<and>
     list_ex (\<lambda>suffix. endsWith (toLowerCase (INode.type node)) suffix)
       [''trigger'', ''webhook''] \<and>
     INode.type node \<noteq> ''n8n-nodes-base.respondToWebhook'')"

definition buildExecutionPayload ::
  "Services \<Rightarrow> IWorkflowBase \<Rightarrow> Workflow \<Rightarrow> IDataObject option \<Rightarrow> ExecuteOptions \<Rightarrow>
   IRunData option \<Rightarrow> IPinData option \<Rightarrow> (exn + ManualRunPayload) \<times> IWorkflowBase" where
  "buildExecutionPayload = (\<lambda>this workflow workflowInstance inputData options
                              previousRunData previousPinData.
     let payload =
           \<lparr>ManualRunPayload.workflowData = workflow, runData = None, startNodes = None,
            destinationNode = None, dirtyNodeNames = None, triggerToStartFrom = None,
            agentRequest = None\<rparr>
     in case triggerData options of
          Some custom \<Rightarrow>
            (case getNode workflowInstance (triggerName custom) of
               None \<Rightarrow>
                 (Inl (BadRequestError
                    (''Trigger node '' @ dquote @ triggerName custom @ dquote @
                     '' not found in workflow'')),
                  workflow)
             | Some triggerNode \<Rightarrow>
                 (let workflow = workflow\<lparr>IWorkflowBase.pinData := Some
                        ((case IWorkflowBase.pinData workflow of
                            None \<Rightarrow> Map.empty | Some pd \<Rightarrow> pd)
                         (INode.name triggerNode \<mapsto> [\<lparr>json = TriggerData.payload custom\<rparr>]))\<rparr>;
                      payload = payload
                        \<lparr>ManualRunPayload.triggerToStartFrom := Some
                           \<lparr>TriggerToStartFrom.name = INode.name triggerNode\<rparr>,
                         ManualRunPayload.workflowData := workflow,
                         ManualRunPayload.startNodes := Some []\<rparr>;
                      payload =
                        (if truthy (ExecuteOptions.destinationNode options)
                         then payload\<lparr>ManualRunPayload.destinationNode :=
                                ExecuteOptions.destinationNode options\<rparr>
                         else payload)
                  in (Inr payload, workflow)))
        | None \<Rightarrow>
            if previousRunData \<noteq> None \<and> truthy (ExecuteOptions.destinationNode options) then
              (let payload = payload
                     \<lparr>ManualRunPayload.runData := previousRunData,
                      ManualRunPayload.destinationNode := ExecuteOptions.destinationNode options,
                      ManualRunPayload.dirtyNodeNames := Some
                        (case dirtyNodes options of None \<Rightarrow> [] | Some ds \<Rightarrow> ds)\<rparr>;
                   workflow =
                     (if previousPinData \<noteq> None
                      then workflow\<lparr>IWorkflowBase.pinData := previousPinData\<rparr>
                      else workflow)
               in (Inr (payload\<lparr>ManualRunPayload.workflowData := workflow\<rparr>), workflow))
            else
              (case inputData of
                 Some input \<Rightarrow>
                   (let activatorNodes = filter isActivatorNode (IWorkflowBase.nodes workflow)
                    in case activatorNodes of
                         [] \<Rightarrow>
                           (Inl (BadRequestError ''Workflow has no trigger or webhook nodes''),
                            workflow)
                       | firstActivator # _ \<Rightarrow>
                           (let startNode =
                                  find (\<lambda>node. INode.type node = ''n8n-nodes-base.manualTrigger'')
                                    activatorNodes;
                                startNode =
                                  (case startNode of
                                     None \<Rightarrow>
                                       find (\<lambda>node. includes_str (toLowerCase (INode.type node))
                                                      ''webhook'')
                                         activatorNodes
                                   | Some n \<Rightarrow> Some n);
                                startNode =
                                  (case startNode of None \<Rightarrow> firstActivator | Some n \<Rightarrow> n);
                                workflow = workflow\<lparr>IWorkflowBase.pinData := Some
                                  ((case IWorkflowBase.pinData workflow of
                                      None \<Rightarrow> Map.empty | Some pd \<Rightarrow> pd)
                                   (INode.name startNode \<mapsto> [\<lparr>json = input\<rparr>]))\<rparr>;
                                payload = payload
                                  \<lparr>ManualRunPayload.triggerToStartFrom := Some
                                     \<lparr>TriggerToStartFrom.name = INode.name startNode\<rparr>,
                                   ManualRunPayload.workflowData := workflow,
                                   ManualRunPayload.startNodes := Some []\<rparr>;
                                payload =
                                  (if truthy (ExecuteOptions.destinationNode options)
                                   then payload\<lparr>ManualRunPayload.destinationNode :=
                                          ExecuteOptions.destinationNode options\<rparr>
                                   else payload)
                            in (Inr payload, workflow)))
               | None \<Rightarrow>
                   (let payload =
                          (if truthy (ExecuteOptions.destinationNode options)
                           then payload\<lparr>ManualRunPayload.destinationNode :=
                                  ExecuteOptions.destinationNode options\<rparr>
                           else payload);
                        workflow =
                          (if previousPinData \<noteq> None
                           then workflow\<lparr>IWorkflowBase.pinData := previousPinData\<rparr>
                           else workflow)
                    in (Inr (payload\<lparr>ManualRunPayload.workflowData := workflow\<rparr>),
                        workflow))))"

section \<open>Execution orchestrator\<close>

record ExecuteWorkflowResult =
  executionId :: "string option"
  status :: "string option"

definition executeWorkflow ::
  "Services \<Rightarrow> string \<Rightarrow> IDataObject option \<Rightarrow> ExecuteOptions \<Rightarrow> User \<Rightarrow>
   (exn + ExecuteWorkflowResult) \<times> Event list" where
  "executeWorkflow = (\<lambda>this workflowId inputData options user.
     case workflowRepository_findOneBy this workflowId of
       Inl e \<Rightarrow> (Inl e, [])
     | Inr None \<Rightarrow>
         (Inl (NotFoundError
            (''Workflow with ID '' @ dquote @ workflowId @ dquote @ '' not found'')), [])
     | Inr (Some found) \<Rightarrow>
         (let workflow = found;
              workflowInstance = newWorkflow this
                \<lparr>WorkflowParameters.id = Some (IWorkflowBase.id workflow),
                 name = Some (IWorkflowBase.name workflow),
                 nodes = IWorkflowBase.nodes workflow,
                 connections = IWorkflowBase.connections workflow,
                 active = IWorkflowBase.active workflow,
                 staticData = IWorkflowBase.staticData workflow,
                 settings = IWorkflowBase.settings workflow\<rparr>
          in case (case ExecuteOptions.executionId options of
                     None \<Rightarrow> Inr (None, None)
                   | Some previousId \<Rightarrow>
                       if previousId = [] then Inr (None, None)
                       else
                         (case executionRepository_findSingleExecution this previousId of
                            Inl e \<Rightarrow> Inl e
                          | Inr None \<Rightarrow>
                              Inl (NotFoundError
                                (''Execution with ID '' @ dquote @ previousId @ dquote @
                                 '' not found''))
                          | Inr (Some previousExecution) \<Rightarrow>
                              Inr (case IExecutionResponse.data previousExecution of
                                     None \<Rightarrow> None
                                   | Some d \<Rightarrow> ResultData.runData (resultData d),
                                   IWorkflowBase.pinData workflow))) of
                 Inl e \<Rightarrow> (Inl e, [])
               | Inr (previousRunData, previousPinData) \<Rightarrow>
                   (case buildExecutionPayload this workflow workflowInstance inputData options
                           previousRunData previousPinData of
                      (Inl e, _) \<Rightarrow> (Inl e, [])
                    | (Inr built, _) \<Rightarrow>
                        (case executeManually this built user None None None of
                           (Inl e, events) \<Rightarrow> (Inl e, events)
                         | (Inr result, events) \<Rightarrow>
                             (if waitingForWebhook result = Some True
                              then Inr \<lparr>ExecuteWorkflowResult.executionId =
                                          ManualResult.executionId result,
                                        status = Some ''waiting''\<rparr>
                              else Inr \<lparr>ExecuteWorkflowResult.executionId =
                                          ManualResult.executionId result,
                                        status = None\<rparr>,
                              events)))))"

section \<open>Error-workflow invoker\<close>

text \<open>A template literal prints an absent value as \<^verbatim>\<open>undefined\<close>.\<close>

fun interpolate :: "string option \<Rightarrow> string" where
  "interpolate None = ''undefined''"
| "interpolate (Some s) = s"

text \<open>The failure description as the JSON object put on the execution stack.\<close>

definition errorDataObject :: "IWorkflowErrorData \<Rightarrow> IDataObject" where
  "errorDataObject = (\<lambda>workflowErrorData.
     (case execution workflowErrorData of
        None \<Rightarrow> []
      | Some e \<Rightarrow>
          [(''execution'', JObj
             ((case ErrorDataExecution.id e of None \<Rightarrow> [] | Some i \<Rightarrow> [(''id'', JStr i)]) @
              (case lastNodeExecuted e of
                 None \<Rightarrow> [] | Some l \<Rightarrow> [(''lastNodeExecuted'', JStr l)])))]) @
     [(''workflow'', JObj
        ((case ErrorDataWorkflow.id (workflow workflowErrorData) of
            None \<Rightarrow> [] | Some i \<Rightarrow> [(''id'', JStr i)]) @
         [(''name'', JStr (ErrorDataWorkflow.name (workflow workflowErrorData)))]))])"

text \<open>
  The parts of \<^verbatim>\<open>executeErrorWorkflow\<close>: the workflow instance built from the stored
  error workflow, the node of it named by \<^verbatim>\<open>lastNodeExecuted\<close>, the error recorded when
  the policy check rejects the call, the record stored then, the search for the error
  trigger (the last node of that type in the instance's dictionary), and the payload handed
  to the run engine.
\<close>

definition errorWorkflowInstance :: "Services \<Rightarrow> string \<Rightarrow> IWorkflowBase \<Rightarrow> Workflow" where
  "errorWorkflowInstance = (\<lambda>this workflowId workflowData.
     newWorkflow this
       \<lparr>WorkflowParameters.id = Some workflowId,
        name = Some (IWorkflowBase.name workflowData),
        nodes = IWorkflowBase.nodes workflowData,
        connections = IWorkflowBase.connections workflowData,
        active = IWorkflowBase.active workflowData,
        staticData = IWorkflowBase.staticData workflowData,
        settings = IWorkflowBase.settings workflowData\<rparr>)"

definition failedNodeOf :: "Workflow \<Rightarrow> IWorkflowErrorData \<Rightarrow> INode option" where
  "failedNodeOf = (\<lambda>workflowInstance workflowErrorData.
     case execution workflowErrorData of
       None \<Rightarrow> None
     | Some e \<Rightarrow>
         (case lastNodeExecuted e of
            None \<Rightarrow> None
          | Some l \<Rightarrow> if l \<noteq> [] then getNode workflowInstance l else None))"

definition errorWorkflowPermissionError :: "IWorkflowErrorData \<Rightarrow> exn" where
  "errorWorkflowPermissionError = (\<lambda>workflowErrorData.
     SubworkflowOperationError
       (''Another workflow: (ID '' @
        interpolate (ErrorDataWorkflow.id (workflow workflowErrorData)) @
        '') tried to invoke this workflow to handle errors.'')
       (''Unfortunately current permissions do not allow this. '' @
        ''Please check that this workflow's settings allow it to be called by others''))"

definition fullExecutionData ::
  "Services \<Rightarrow> FailedExecution \<Rightarrow> IWorkflowBase \<Rightarrow> CreateExecutionPayload" where
  "fullExecutionData = (\<lambda>this fakeExecution workflowData.
     \<lparr>CreateExecutionPayload.data = FailedExecution.data fakeExecution,
      mode = FailedExecution.mode fakeExecution,
      finished = False,
      stoppedAt = Some (new_Date this),
      workflowData = workflowData,
      waitTill = None,
      status = FailedExecution.status fakeExecution,
      workflowId = IWorkflowBase.id workflowData\<rparr>)"

definition findErrorTrigger :: "Workflow \<Rightarrow> string \<Rightarrow> INode option" where
  "findErrorTrigger = (\<lambda>workflowInstance errorTriggerType.
     fold (\<lambda>nodeName workflowStartNode.
             case map_of (Workflow.nodes workflowInstance) nodeName of
               None \<Rightarrow> workflowStartNode
             | Some n \<Rightarrow>
                 if INode.type n = errorTriggerType then Some n else workflowStartNode)
       (map fst (Workflow.nodes workflowInstance)) None)"

definition errorRunData ::
  "IWorkflowBase \<Rightarrow> INode \<Rightarrow> IWorkflowErrorData \<Rightarrow> Project \<Rightarrow> IWorkflowExecutionDataProcess" where
  "errorRunData = (\<lambda>workflowData workflowStartNode workflowErrorData runningProject.
     let parentExecution =
           (case execution workflowErrorData of
              None \<Rightarrow> None
            | Some e \<Rightarrow>
                (case (ErrorDataExecution.id e,
                       ErrorDataWorkflow.id (workflow workflowErrorData)) of
                   (Some ei, Some wi) \<Rightarrow>
                     if ei \<noteq> [] \<and> wi \<noteq> []
                     then Some \<lparr>ParentExecution.executionId = ei, workflowId = wi\<rparr>
                     else None
                 | _ \<Rightarrow> None));
         nodeExecutionStack =
           [\<lparr>IExecuteData.node = workflowStartNode,
             data = \<lparr>main = [[\<lparr>json = errorDataObject workflowErrorData\<rparr>]]\<rparr>,
             source = None,
             metadata = map_option (\<lambda>p. \<lparr>ExecuteMetadata.parentExecution = p\<rparr>)
                          parentExecution\<rparr>];
         runExecutionData =
           \<lparr>startData = \<lparr>StartData.startNodes = None, destinationNode = None\<rparr>,
            resultData = \<lparr>ResultData.pinData = None, runData = Some Map.empty\<rparr>,
            executionData = Some \<lparr>nodeExecutionStack = nodeExecutionStack\<rparr>,
            manualData = None\<rparr>
     in \<lparr>IWorkflowExecutionDataProcess.destinationNode = None,
         executionMode = ''error'',
         runData = None, pinData = None, pushRef = None, startNodes = None,
         workflowData = workflowData,
         userId = None, dirtyNodeNames = None, triggerToStartFrom = None,
         agentRequest = None, streamingEnabled = None, httpResponse = None,
         executionData = Some runExecutionData,
         projectId = Some (Project.id runningProject)\<rparr>)"

text \<open>The body of the \<^verbatim>\<open>try\<close> block: \<open>Inl\<close> is an exception leaving it.\<close>

definition executeErrorWorkflow_try ::
  "Services \<Rightarrow> string \<Rightarrow> IWorkflowErrorData \<Rightarrow> Project \<Rightarrow> (exn + unit) \<times> Event list" where
  "executeErrorWorkflow_try = (\<lambda>this workflowId workflowErrorData runningProject.
     case workflowRepository_findOneBy this workflowId of
       Inl e \<Rightarrow> (Inl e, [])
     | Inr None \<Rightarrow>
         (Inr (),
          [LoggerError
             (''Calling Error Workflow for '' @ dquote @
              interpolate (ErrorDataWorkflow.id (workflow workflowErrorData)) @ dquote @
              ''. Could not find error workflow '' @ dquote @ workflowId @ dquote)])
     | Inr (Some found) \<Rightarrow>
         (let workflowData = found;
              workflowInstance = errorWorkflowInstance this workflowId workflowData;
              failedNode = failedNodeOf workflowInstance workflowErrorData
          in case subworkflowPolicyChecker_check this workflowInstance
                    (ErrorDataWorkflow.id (workflow workflowErrorData)) failedNode of
               Inl error \<Rightarrow>
                 (let initialNode = getStartNode workflowInstance
                  in case (case initialNode of
                             None \<Rightarrow> (Inr (), [])
                           | Some n \<Rightarrow>
                               (case generateFailedExecutionFromError this ''error''
                                       (errorWorkflowPermissionError workflowErrorData) n of
                                  Inl e \<Rightarrow> (Inl e, [])
                                | Inr fakeExecution \<Rightarrow>
                                    (case executionRepository_createNewExecution this
                                            (fullExecutionData this fakeExecution
                                               workflowData) of
                                       Inl e \<Rightarrow>
                                         (Inl e,
                                          [CreateNewExecution
                                             (fullExecutionData this fakeExecution
                                                workflowData)])
                                     | Inr _ \<Rightarrow>
                                         (Inr (),
                                          [CreateNewExecution
                                             (fullExecutionData this fakeExecution
                                                workflowData)])))) of
                       (Inl e, events) \<Rightarrow> (Inl e, events)
                     | (Inr _, events) \<Rightarrow>
                         (Inr (),
                          events @
                          [LoggerInfo
                             ''Error workflow execution blocked due to subworkflow settings'']))
             | Inr _ \<Rightarrow>
                 (let errorTriggerType = globalConfig_nodes_errorTriggerType this
                  in case findErrorTrigger workflowInstance errorTriggerType of
                       None \<Rightarrow>
                         (Inr (),
                          [LoggerError
                             (''Calling Error Workflow for '' @ dquote @
                              interpolate (ErrorDataWorkflow.id (workflow workflowErrorData)) @
                              dquote @ ''. Could not find '' @ dquote @ errorTriggerType @
                              dquote @ '' in workflow '' @ dquote @ workflowId @ dquote)])
                     | Some workflowStartNode \<Rightarrow>
                         (let runData = errorRunData workflowData workflowStartNode
                                          workflowErrorData runningProject
                          in case workflowRunner_run this runData of
                               Inl e \<Rightarrow> (Inl e, [Run runData])
                             | Inr _ \<Rightarrow> (Inr (), [Run runData])))))"

text \<open>
  The whole method: an exception leaving the \<^verbatim>\<open>try\<close> block is reported, and logged with
  its message. Reading the message is part of the handler, which is not guarded itself.
\<close>

definition executeErrorWorkflow ::
  "Services \<Rightarrow> string \<Rightarrow> IWorkflowErrorData \<Rightarrow> Project \<Rightarrow> (exn + unit) \<times> Event list" where
  "executeErrorWorkflow = (\<lambda>this workflowId workflowErrorData runningProject.
     case executeErrorWorkflow_try this workflowId workflowErrorData runningProject of
       (Inr _, events) \<Rightarrow> (Inr (), events)
     | (Inl error, events) \<Rightarrow>
         (case message error of
            Inl raised \<Rightarrow> (Inl raised, events @ [ErrorReporterError error])
          | Inr error_message \<Rightarrow>
              (Inr (),
               events @
               [ErrorReporterError error,
                LoggerError
                  (''Calling Error Workflow for '' @ dquote @
                   interpolate (ErrorDataWorkflow.id (workflow workflowErrorData)) @ dquote @
                   '': '' @ dquote @ error_message @ dquote)])))"

section \<open>Example workflows and collaborators\<close>

text \<open>Concrete inputs on which the properties below are evaluated.\<close>

definition mkNode :: "string \<Rightarrow> string \<Rightarrow> INode" where
  "mkNode = (\<lambda>n t. \<lparr>INode.name = n, type = t, typeVersion = 1, disabled = False\<rparr>)"

definition mkWorkflow :: "INode list \<Rightarrow> IPinData option \<Rightarrow> IWorkflowBase" where
  "mkWorkflow = (\<lambda>ns pins.
     \<lparr>IWorkflowBase.id = ''wf1'', name = ''Example'', nodes = ns, connections = [],
      active = True, pinData = pins, staticData = None, settings = None\<rparr>)"

definition emptyRunExecutionData :: IRunExecutionData where
  "emptyRunExecutionData =
     \<lparr>startData = \<lparr>StartData.startNodes = None, destinationNode = None\<rparr>,
      resultData = \<lparr>ResultData.pinData = None, runData = Some Map.empty\<rparr>,
      executionData = None, manualData = None\<rparr>"

definition exampleServices :: "(string \<Rightarrow> string list) \<Rightarrow> INode option \<Rightarrow> Services" where
  "exampleServices = (\<lambda>parents start.
     \<lparr>nodeTypes_group =
        (\<lambda>t v. Inr (if endsWith (toLowerCase t) ''trigger'' then [''trigger'']
                     else [''transform''])),
      newWorkflow =
        (\<lambda>p. \<lparr>Workflow.nodes = map (\<lambda>n. (INode.name n, n)) (WorkflowParameters.nodes p),
               getParentNodes = parents, getStartNode = start\<rparr>),
      workflowRepository_findOneBy = (\<lambda>i. Inr None),
      executionRepository_findSingleExecution = (\<lambda>i. Inr None),
      executionRepository_createNewExecution = (\<lambda>p. Inr ''E1''),
      getBase = (\<lambda>u w. Inr \<lparr>IWorkflowExecuteAdditionalData.userId = u, workflowId = w\<rparr>),
      testWebhooks_needsWebhook = (\<lambda>opts. Inr False),
      workflowRunner_run = (\<lambda>d. Inr ''E2''),
      subworkflowPolicyChecker_check = (\<lambda>w i n. Inr ()),
      generateFailedExecutionFromError =
        (\<lambda>m e n. Inr \<lparr>FailedExecution.data = emptyRunExecutionData, mode = m,
                        status = ''error''\<rparr>),
      globalConfig_executions_mode = ''regular'',
      globalConfig_nodes_errorTriggerType = ''n8n-nodes-base.errorTrigger'',
      env_OFFLOAD_MANUAL_EXECUTIONS_TO_WORKERS = None,
      new_Date = 0\<rparr>)"

definition pinned :: "string list \<Rightarrow> IPinData" where
  "pinned = (\<lambda>names. map_of (map (\<lambda>n. (n, [\<lparr>json = []\<rparr>])) names))"


definition destinationWorkflow :: "string \<Rightarrow> IWorkflowBase" where
  "destinationWorkflow = (\<lambda>d. mkWorkflow
     [mkNode ''A'' ''n8n-nodes-base.scheduleTrigger'', mkNode ''W'' ''n8n-nodes-base.webhook'',
      mkNode d ''n8n-nodes-base.set'']
     (Some (pinned [''A'', ''W''])))"

definition inheritedPinWorkflow :: IWorkflowBase where
  "inheritedPinWorkflow = mkWorkflow
     [mkNode ''constructor'' ''n8n-nodes-base.webhook'',
      mkNode ''A'' ''n8n-nodes-base.scheduleTrigger'',
      mkNode ''D'' ''n8n-nodes-base.set'']
     (Some (pinned [''A'']))"

definition noOptions :: ExecuteOptions where
  "noOptions = \<lparr>ExecuteOptions.destinationNode = None, executionId = None, dirtyNodes = None,
                 triggerData = None\<rparr>"

definition scenarioB :: IWorkflowBase where
  "scenarioB = mkWorkflow
     [mkNode ''W'' ''n8n-nodes-base.webhook'', mkNode ''M'' ''n8n-nodes-base.manualTrigger'']
     None"

definition noActivators :: IWorkflowBase where
  "noActivators = mkWorkflow
     [mkNode ''X'' ''n8n-nodes-base.set'', mkNode ''R'' ''n8n-nodes-base.respondToWebhook'']
     None"

definition webhookOnly :: IWorkflowBase where
  "webhookOnly = mkWorkflow [mkNode ''W'' ''n8n-nodes-base.webhook''] None"

definition waitingServices :: Services where
  "waitingServices = (exampleServices (\<lambda>n. []) None)
     \<lparr>workflowRepository_findOneBy := (\<lambda>i. Inr (Some webhookOnly)),
      testWebhooks_needsWebhook := (\<lambda>opts. Inr True)\<rparr>"

definition manualRequest :: "IWorkflowBase \<Rightarrow> string option \<Rightarrow> IRunData option \<Rightarrow> ManualRunPayload" where
  "manualRequest = (\<lambda>w d r.
     \<lparr>ManualRunPayload.workflowData = w, runData = r, startNodes = None, destinationNode = d,
      dirtyNodeNames = None, triggerToStartFrom = None, agentRequest = None\<rparr>)"

definition triggerAndSet :: "string \<Rightarrow> IWorkflowBase" where
  "triggerAndSet = (\<lambda>t. mkWorkflow
     [mkNode t ''n8n-nodes-base.scheduleTrigger'', mkNode ''X'' ''n8n-nodes-base.set''] None)"

definition errorWorkflow :: IWorkflowBase where
  "errorWorkflow = mkWorkflow
     [mkNode ''Error Trigger'' ''n8n-nodes-base.errorTrigger'',
      mkNode ''Notify'' ''n8n-nodes-base.set''] None"

text \<open>
  An error workflow whose error trigger is disabled, followed by two nodes that start
  nothing: the graph engine finds no start node in it.
\<close>

definition disabledTriggerWorkflow :: IWorkflowBase where
  "disabledTriggerWorkflow = mkWorkflow
     [(mkNode ''Error Trigger'' ''n8n-nodes-base.errorTrigger'')\<lparr>disabled := True\<rparr>,
      mkNode ''Notify'' ''n8n-nodes-base.set'',
      mkNode ''Done'' ''n8n-nodes-base.noOp''] None"

definition failureData :: IWorkflowErrorData where
  "failureData =
     \<lparr>execution = Some \<lparr>ErrorDataExecution.id = Some ''77'', lastNodeExecuted = Some ''HTTP''\<rparr>,
      workflow = \<lparr>ErrorDataWorkflow.id = Some ''failing'', name = ''Failing''\<rparr>\<rparr>"

definition rejectingServices :: "IWorkflowBase \<Rightarrow> INode option \<Rightarrow> Services" where
  "rejectingServices = (\<lambda>stored start. (exampleServices (\<lambda>n. []) start)
     \<lparr>workflowRepository_findOneBy := (\<lambda>i. Inr (Some stored)),
      subworkflowPolicyChecker_check := (\<lambda>w i n. Inl (Error ''denied'')),
      new_Date := 1700000000\<rparr>)"

definition failingRunServices :: Services where
  "failingRunServices =
     (exampleServices (\<lambda>n. []) (Some (mkNode ''Error Trigger'' ''n8n-nodes-base.errorTrigger'')))
     \<lparr>workflowRepository_findOneBy := (\<lambda>i. Inr (Some errorWorkflow)),
      workflowRunner_run := (\<lambda>d. Inl (Error ''queue down''))\<rparr>"

text \<open>A workflow store whose lookup is rejected with \<^verbatim>\<open>null\<close>.\<close>

definition nullRejectingServices :: Services where
  "nullRejectingServices =
     (exampleServices (\<lambda>n. []) None)
     \<lparr>workflowRepository_findOneBy := (\<lambda>i. Inl Thrown_null)\<rparr>"

section \<open>The selector's pinned activators, as the specification describes them\<close>

text \<open>
  These two definitions follow the words of the specification, not the code; the properties
  of the selector below compare the code with them. A pinned activator is a node that is
  not disabled, is of a trigger or webhook type other than the node that responds to a
  webhook, and possesses pin data: the pin data holds an entry under its name. The pinned
  activators in tie-break order are the pinned activators of the workflow, sorted with the
  comparator of the code, which puts the nodes whose type ends in \<^verbatim>\<open>webhook\<close> first.
\<close>

definition spec_pinnedActivator :: "IPinData \<Rightarrow> INode \<Rightarrow> bool" where
  "spec_pinnedActivator = (\<lambda>pd node.
     \<not> disabled node \<and> pd (INode.name node) \<noteq> None \<and>
     list_ex (\<lambda>suffix. endsWith (toLowerCase (INode.type node)) suffix)
       [''trigger'', ''webhook''] \<and>
     INode.type node \<noteq> ''n8n-nodes-base.respondToWebhook'')"

definition spec_pinnedActivatorsInOrder :: "IWorkflowBase \<Rightarrow> IPinData \<Rightarrow> INode list" where
  "spec_pinnedActivatorsInOrder = (\<lambda>workflow pd.
     js_sort (\<lambda>a b. if endsWith (INode.type a) ''webhook'' then - 1 else 1)
       (filter (spec_pinnedActivator pd) (IWorkflowBase.nodes workflow)))"

section \<open>Properties of the sort\<close>

lemma partitionedI:
  "xs = ws @ ts \<Longrightarrow> \<forall>x\<in>set ws. P x \<Longrightarrow> \<forall>x\<in>set ts. \<not> P x \<Longrightarrow> partitioned P xs"
  unfolding partitioned_def by blast

lemma binarySearch_left:
  "(\<And>b. c pivot b < 0) \<Longrightarrow> binarySearch c pivot xs l r = l"
  by (induction c pivot xs l r rule: binarySearch.induct) (simp add: binarySearch.simps)

lemma binarySearch_right:
  "(\<And>b. \<not> c pivot b < 0) \<Longrightarrow> l \<le> r \<Longrightarrow> binarySearch c pivot xs l r = r"
proof (induction c pivot xs l r rule: binarySearch.induct)
  case (1 comparefn pivot workArray left right)
  show ?case
  proof (cases "left < right")
    case True
    then have "left + (right - left) div 2 + 1 \<le> right" by linarith
    with 1 True show ?thesis by (simp add: binarySearch.simps)
  next
    case False
    with 1 show ?thesis by (simp add: binarySearch.simps)
  qed
qed

lemma mset_take_drop: "mset (take n xs) + mset (drop n xs) = mset xs"
  by (metis append_take_drop_id mset_append)

lemma mset_binaryInsertionSort:
  "mset (binaryInsertionSort c s r) = mset s + mset r"
proof (induction r arbitrary: s)
  case Nil
  then show ?case by simp
next
  case (Cons p r)
  define k where "k = binarySearch c p s 0 (length s)"
  have "mset (binaryInsertionSort c s (p # r)) = mset (take k s @ p # drop k s) + mset r"
    using Cons [of "take k s @ p # drop k s"] by (simp add: Let_def k_def)
  also have "mset (take k s @ p # drop k s) = (mset (take k s) + mset (drop k s)) + {#p#}"
    by simp
  also have "\<dots> = mset s + {#p#}"
    by (simp only: mset_take_drop)
  finally show ?case by simp
qed

lemma mset_countAndMakeRun:
  "countAndMakeRun c xs = (run, rest) \<Longrightarrow> mset run + mset rest = mset xs"
proof (cases "(c, xs)" rule: countAndMakeRun.cases)
  case (1 comparefn elementHigh elementLow rest')
  assume "countAndMakeRun c xs = (run, rest)"
  with 1 show ?thesis
    using mset_take_drop [of "2 + extendRun c (c elementLow elementHigh < 0) elementLow rest'" xs]
    by (auto simp add: Let_def simp del: take_Suc_Cons drop_Suc_Cons split: if_splits)
qed auto

lemma mset_js_sort: "mset (js_sort c xs) = mset xs"
  by (auto simp add: js_sort_def mset_binaryInsertionSort split: prod.splits dest: mset_countAndMakeRun)

lemma extendRun_descending:
  assumes c: "\<And>a b. (c a b < 0) = P a"
  shows "x \<in> set (take (extendRun c True prev rest) rest) \<Longrightarrow> P x"
proof (induction rest arbitrary: prev)
  case Nil
  then show ?case by simp
next
  case (Cons e es)
  show ?case
  proof (cases "P e")
    case True
    then have "extendRun c True prev (e # es) = Suc (extendRun c True e es)"
      using c [of e prev] by (simp add: Let_def)
    with Cons.prems have "x = e \<or> x \<in> set (take (extendRun c True e es) es)"
      by simp
    with True Cons.IH show ?thesis by blast
  next
    case False
    then have "extendRun c True prev (e # es) = 0"
      using c [of e prev] by (simp add: Let_def)
    with Cons.prems show ?thesis by simp
  qed
qed

lemma extendRun_ascending:
  assumes c: "\<And>a b. (c a b < 0) = P a"
  shows "x \<in> set (take (extendRun c False prev rest) rest) \<Longrightarrow> \<not> P x"
proof (induction rest arbitrary: prev)
  case Nil
  then show ?case by simp
next
  case (Cons e es)
  show ?case
  proof (cases "P e")
    case True
    then have "extendRun c False prev (e # es) = 0"
      using c [of e prev] by (simp add: Let_def)
    with Cons.prems show ?thesis by simp
  next
    case False
    then have "extendRun c False prev (e # es) = Suc (extendRun c False e es)"
      using c [of e prev] by (simp add: Let_def)
    with Cons.prems have "x = e \<or> x \<in> set (take (extendRun c False e es) es)"
      by simp
    with False Cons.IH show ?thesis by blast
  qed
qed

lemma countAndMakeRun_Cons2:
  "countAndMakeRun c (a0 # a1 # rest) =
     (if c a1 a0 < 0
      then (rev (take (extendRun c True a1 rest) rest) @ [a1, a0],
            drop (extendRun c True a1 rest) rest)
      else (a0 # a1 # take (extendRun c False a1 rest) rest,
            drop (extendRun c False a1 rest) rest))"
  by (simp add: Let_def)

lemma partitioned_singleton: "partitioned P [a]"
  by (rule partitionedI [of _ "if P a then [a] else []" "if P a then [] else [a]"]) simp_all

lemma partitioned_countAndMakeRun:
  assumes c: "\<And>a b. (c a b < 0) = P a"
  shows "partitioned P (fst (countAndMakeRun c xs))"
proof (cases xs)
  case Nil
  then show ?thesis by (simp add: partitioned_def)
next
  case (Cons a0 xs')
  note outer = Cons
  show ?thesis
  proof (cases xs')
    case Nil
    with outer show ?thesis by (simp add: partitioned_singleton)
  next
    case (Cons a1 rest)
    show ?thesis
    proof (cases "P a1")
      case True
      define n where "n = extendRun c True a1 rest"
      have run: "fst (countAndMakeRun c xs) = (rev (take n rest) @ [a1]) @ [a0]"
        using outer Cons True c [of a1 a0]
        by (simp add: countAndMakeRun_Cons2 n_def del: countAndMakeRun.simps)
      have "\<forall>x\<in>set (take n rest). P x"
        using extendRun_descending [where c = c and P = P, OF c] unfolding n_def by blast
      with True have allP: "\<forall>x\<in>set (rev (take n rest) @ [a1]). P x"
        by simp
      show ?thesis
      proof (cases "P a0")
        case True
        with allP have "\<forall>x\<in>set ((rev (take n rest) @ [a1]) @ [a0]). P x" by simp
        then show ?thesis unfolding run
          by (intro partitionedI [of _ "(rev (take n rest) @ [a1]) @ [a0]" "[]"]) simp_all
      next
        case False
        with allP show ?thesis unfolding run
          by (intro partitionedI [of _ "rev (take n rest) @ [a1]" "[a0]"]) simp_all
      qed
    next
      case False
      define n where "n = extendRun c False a1 rest"
      have run: "fst (countAndMakeRun c xs) = [a0] @ (a1 # take n rest)"
        using outer Cons False c [of a1 a0]
        by (simp add: countAndMakeRun_Cons2 n_def del: countAndMakeRun.simps)
      have "\<forall>x\<in>set (take n rest). \<not> P x"
        using extendRun_ascending [where c = c and P = P, OF c] unfolding n_def by blast
      with False have allN: "\<forall>x\<in>set (a1 # take n rest). \<not> P x"
        by simp
      show ?thesis
      proof (cases "P a0")
        case True
        with allN show ?thesis unfolding run
          by (intro partitionedI [of _ "[a0]" "a1 # take n rest"]) simp_all
      next
        case False
        with allN have "\<forall>x\<in>set ([a0] @ (a1 # take n rest)). \<not> P x" by simp
        then show ?thesis unfolding run
          by (intro partitionedI [of _ "[]" "[a0] @ (a1 # take n rest)"]) simp_all
      qed
    qed
  qed
qed

lemma partitioned_insert:
  assumes c: "\<And>a b. (c a b < 0) = P a" and "partitioned P s"
  shows "partitioned P
    (take (binarySearch c p s 0 (length s)) s @ p # drop (binarySearch c p s 0 (length s)) s)"
proof -
  from assms(2) obtain ws ts where s: "s = ws @ ts" and ws: "\<forall>x\<in>set ws. P x"
    and ts: "\<forall>x\<in>set ts. \<not> P x" unfolding partitioned_def by blast
  show ?thesis
  proof (cases "P p")
    case True
    then have "binarySearch c p s 0 (length s) = 0"
      by (intro binarySearch_left) (simp add: c)
    moreover have "p # s = (p # ws) @ ts" using s by simp
    moreover have "\<forall>x\<in>set (p # ws). P x" using ws True by simp
    ultimately show ?thesis using ts
      by (intro partitionedI [of _ "p # ws" ts]) simp_all
  next
    case False
    then have "binarySearch c p s 0 (length s) = length s"
      by (intro binarySearch_right) (simp_all add: c)
    moreover have "s @ [p] = ws @ (ts @ [p])" using s by simp
    moreover have "\<forall>x\<in>set (ts @ [p]). \<not> P x" using ts False by simp
    ultimately show ?thesis using ws
      by (intro partitionedI [of _ ws "ts @ [p]"]) simp_all
  qed
qed

lemma partitioned_binaryInsertionSort:
  assumes c: "\<And>a b. (c a b < 0) = P a"
  shows "partitioned P s \<Longrightarrow> partitioned P (binaryInsertionSort c s r)"
  by (induction r arbitrary: s) (simp_all add: Let_def partitioned_insert [where c = c and P = P, OF c])

lemma partitioned_js_sort:
  assumes c: "\<And>a b. (c a b < 0) = P a"
  shows "partitioned P (js_sort c xs)"
proof (cases "length xs < 2")
  case True
  then have "js_sort c xs = fst (countAndMakeRun c xs)"
    by (cases xs; cases "tl xs") (simp_all add: js_sort_def)
  then show ?thesis
    using partitioned_countAndMakeRun [where c = c and P = P and xs = xs, OF c] by simp
next
  case False
  obtain run rest where rr: "countAndMakeRun c xs = (run, rest)"
    by (cases "countAndMakeRun c xs")
  then have "partitioned P run"
    using partitioned_countAndMakeRun [where c = c and P = P and xs = xs, OF c] by simp
  then have "partitioned P (binaryInsertionSort c run rest)"
    by (rule partitioned_binaryInsertionSort [where c = c and P = P, OF c])
  with False rr show ?thesis
    by (simp add: js_sort_def)
qed



lemma find_unique_mset:
  assumes "filter P xs = [a]" "mset ys = mset xs"
  shows "find P ys = Some a"
proof -
  have "mset (filter P ys) = mset (filter P xs)" using assms(2) by simp
  then have "mset (filter P ys) = {#a#}" using assms(1) by simp
  then have "filter P ys = [a]" by (metis mset_single_iff)
  then show ?thesis by (induction ys) (auto split: if_splits)
qed


section \<open>Pinned-activator selector: properties\<close>

lemmas example_defs =
  mkWorkflow_def mkNode_def pinned_def exampleServices_def emptyRunExecutionData_def

lemmas sort_eval =
  findAllPinnedActivators_def hasTruthyProperty_def objectPrototypeProperties_def
  js_sort_def binarySearch.simps endsWith_def toLowerCase_def Let_def


lemma destination_order:
  "findAllPinnedActivators (destinationWorkflow d) (IWorkflowBase.pinData (destinationWorkflow d)) =
     [mkNode ''W'' ''n8n-nodes-base.webhook'', mkNode ''A'' ''n8n-nodes-base.scheduleTrigger'']"
  by (simp add: destinationWorkflow_def example_defs sort_eval)

lemma find_eq_member: "find (\<lambda>p. p = a) xs = (if a \<in> set xs then Some a else None)"
  by (induction xs) auto



text \<open>
  The pin data is read with \<^verbatim>\<open>pinData?.[node.name]\<close>. When no node without pin data bears
  the name of an inherited property, the list of the code is the list of the pinned
  activators of the specification.
\<close>

lemma findAllPinnedActivators_own_pins:
  fixes workflow :: IWorkflowBase
  assumes "filter (\<lambda>node. pd (INode.name node) = None \<and>
                     INode.name node \<in> set objectPrototypeProperties)
             (IWorkflowBase.nodes workflow) = []"
  shows "findAllPinnedActivators workflow (Some pd) = spec_pinnedActivatorsInOrder workflow pd"
proof -
  have own: "\<And>node. node \<in> set (IWorkflowBase.nodes workflow) \<Longrightarrow>
      hasTruthyProperty pd (INode.name node) = (pd (INode.name node) \<noteq> None)"
    using assms by (auto simp add: hasTruthyProperty_def filter_empty_conv)
  have "filter
          (\<lambda>node. \<not> disabled node \<and>
             (case Some pd of
                None \<Rightarrow> False | Some pd \<Rightarrow> hasTruthyProperty pd (INode.name node)) \<and>
             list_ex (\<lambda>suffix. endsWith (toLowerCase (INode.type node)) suffix)
               [''trigger'', ''webhook''] \<and>
             INode.type node \<noteq> ''n8n-nodes-base.respondToWebhook'')
          (IWorkflowBase.nodes workflow) =
        filter (spec_pinnedActivator pd) (IWorkflowBase.nodes workflow)"
    by (rule filter_cong) (simp_all add: own spec_pinnedActivator_def)
  then show ?thesis
    by (simp only: findAllPinnedActivators_def spec_pinnedActivatorsInOrder_def)
qed

lemma mset_spec_pinnedActivatorsInOrder:
  fixes workflow :: IWorkflowBase
  shows "mset (spec_pinnedActivatorsInOrder workflow pd) =
   mset (filter (spec_pinnedActivator pd) (IWorkflowBase.nodes workflow))"
  by (simp add: spec_pinnedActivatorsInOrder_def mset_js_sort)

lemma partitioned_spec_pinnedActivatorsInOrder:
  fixes workflow :: IWorkflowBase
  shows "partitioned (\<lambda>a. endsWith (INode.type a) ''webhook'')
     (spec_pinnedActivatorsInOrder workflow pd)"
  unfolding spec_pinnedActivatorsInOrder_def
  by (rule partitioned_js_sort) simp

lemma inherited_order:
  "findAllPinnedActivators inheritedPinWorkflow (Some (pinned [''A''])) =
     [mkNode ''constructor'' ''n8n-nodes-base.webhook'',
      mkNode ''A'' ''n8n-nodes-base.scheduleTrigger'']"
  by (simp add: inheritedPinWorkflow_def example_defs sort_eval)

lemma spec_destination_order:
  "spec_pinnedActivatorsInOrder (destinationWorkflow d) (pinned [''A'', ''W'']) =
     [mkNode ''W'' ''n8n-nodes-base.webhook'', mkNode ''A'' ''n8n-nodes-base.scheduleTrigger'']"
  by (simp add: destinationWorkflow_def example_defs spec_pinnedActivatorsInOrder_def
      spec_pinnedActivator_def js_sort_def binarySearch.simps endsWith_def toLowerCase_def
      Let_def)

lemma spec_inherited_order:
  "spec_pinnedActivatorsInOrder inheritedPinWorkflow (pinned [''A'']) =
     [mkNode ''A'' ''n8n-nodes-base.scheduleTrigger'']"
  by (simp add: inheritedPinWorkflow_def example_defs spec_pinnedActivatorsInOrder_def
      spec_pinnedActivator_def js_sort_def binarySearch.simps endsWith_def toLowerCase_def
      Let_def)

text \<open>
  Claim C2, as far as it holds. Let no node without pin data bear the name of a property
  inherited from \<^verbatim>\<open>Object.prototype\<close>, and let the name of the destination node \<open>D\<close> be a
  non-empty string. If exactly one pinned activator \<open>A\<close> of the workflow is among the
  ancestors of \<open>D\<close>, a full execution (empty start-node list) starts from \<open>A\<close>. If no
  pinned activator is among the ancestors of the destination, it starts from the first
  pinned activator in tie-break order (here the name of the destination may be empty).
\<close>

theorem selectPinnedActivatorStarter_full_execution:
  fixes workflow :: IWorkflowBase
  assumes "filter (\<lambda>node. pd (INode.name node) = None \<and>
                     INode.name node \<in> set objectPrototypeProperties)
             (IWorkflowBase.nodes workflow) = []"
  shows
    "(D \<noteq> [] \<and>
      filter (\<lambda>a. spec_pinnedActivator pd a \<and>
                   INode.name a \<in> set (getParentNodes (graphOf this workflow) D))
        (IWorkflowBase.nodes workflow) = [A]
      \<longrightarrow> selectPinnedActivatorStarter this workflow (Some []) (Some pd) (Some D) = Some A) \<and>
     (spec_pinnedActivatorsInOrder workflow pd = firstPinnedActivator # others \<and>
      filter (\<lambda>a. spec_pinnedActivator pd a \<and>
                   INode.name a \<in> set (getParentNodes (graphOf this workflow) D))
        (IWorkflowBase.nodes workflow) = []
      \<longrightarrow> selectPinnedActivatorStarter this workflow (Some []) (Some pd) (Some D) =
            Some firstPinnedActivator)"
proof -
  let ?all = "spec_pinnedActivatorsInOrder workflow pd"
  let ?P = "\<lambda>a. INode.name a \<in> set (getParentNodes (graphOf this workflow) D)"
  let ?pinned = "filter (spec_pinnedActivator pd) (IWorkflowBase.nodes workflow)"
  have eq: "findAllPinnedActivators workflow (Some pd) = ?all"
    using assms by (rule findAllPinnedActivators_own_pins)
  have perm: "mset ?all = mset ?pinned"
    by (rule mset_spec_pinnedActivatorsInOrder)
  show ?thesis
  proof (intro conjI impI)
    assume h: "D \<noteq> [] \<and>
      filter (\<lambda>a. spec_pinnedActivator pd a \<and> ?P a) (IWorkflowBase.nodes workflow) = [A]"
    then have "filter ?P ?pinned = [A]" by (simp add: conj_commute)
    then have found: "find ?P ?all = Some A"
      using perm by (rule find_unique_mset)
    then have "?all \<noteq> []" by auto
    with h found eq
    show "selectPinnedActivatorStarter this workflow (Some []) (Some pd) (Some D) = Some A"
      by (cases ?all) (simp_all add: selectPinnedActivatorStarter_def Let_def)
  next
    assume h: "?all = firstPinnedActivator # others \<and>
      filter (\<lambda>a. spec_pinnedActivator pd a \<and> ?P a) (IWorkflowBase.nodes workflow) = []"
    have "set ?all = set ?pinned" using perm by (rule mset_eq_setD)
    with h have "find ?P ?all = None"
      by (auto simp add: find_None_iff filter_empty_conv)
    with h eq
    show "selectPinnedActivatorStarter this workflow (Some []) (Some pd) (Some D) =
            Some firstPinnedActivator"
      by (simp add: selectPinnedActivatorStarter_def Let_def)
  qed
qed

text \<open>
  A workflow of the schedule trigger \<open>A\<close>, the webhook \<open>W\<close> and the node \<open>D\<close>, with \<open>A\<close>
  and \<open>W\<close> pinned. With \<open>A\<close> the only pinned activator above \<open>D\<close> the selector returns
  \<open>A\<close>, although \<open>W\<close> is first in tie-break order; with no pinned activator above \<open>D\<close> it
  returns \<open>W\<close>.
\<close>

theorem selectPinnedActivatorStarter_full_execution_witness:
  "filter (\<lambda>node. pinned [''A'', ''W''] (INode.name node) = None \<and>
             INode.name node \<in> set objectPrototypeProperties)
     (IWorkflowBase.nodes (destinationWorkflow ''D'')) = [] \<and>
   ''D'' \<noteq> [] \<and>
   filter (\<lambda>a. spec_pinnedActivator (pinned [''A'', ''W'']) a \<and>
           INode.name a \<in> set (getParentNodes
             (graphOf (exampleServices (\<lambda>n. if n = ''D'' then [''A''] else []) None)
                (destinationWorkflow ''D'')) ''D''))
     (IWorkflowBase.nodes (destinationWorkflow ''D''))
     = [mkNode ''A'' ''n8n-nodes-base.scheduleTrigger''] \<and>
   selectPinnedActivatorStarter
     (exampleServices (\<lambda>n. if n = ''D'' then [''A''] else []) None)
     (destinationWorkflow ''D'') (Some []) (Some (pinned [''A'', ''W''])) (Some ''D'')
     = Some (mkNode ''A'' ''n8n-nodes-base.scheduleTrigger'') \<and>
   spec_pinnedActivatorsInOrder (destinationWorkflow ''D'') (pinned [''A'', ''W'']) =
     [mkNode ''W'' ''n8n-nodes-base.webhook'', mkNode ''A'' ''n8n-nodes-base.scheduleTrigger''] \<and>
   filter (\<lambda>a. spec_pinnedActivator (pinned [''A'', ''W'']) a \<and>
           INode.name a \<in> set (getParentNodes
             (graphOf (exampleServices (\<lambda>n. [''X'']) None) (destinationWorkflow ''D'')) ''D''))
     (IWorkflowBase.nodes (destinationWorkflow ''D''))
     = [] \<and>
   selectPinnedActivatorStarter (exampleServices (\<lambda>n. [''X'']) None)
     (destinationWorkflow ''D'') (Some []) (Some (pinned [''A'', ''W''])) (Some ''D'')
     = Some (mkNode ''W'' ''n8n-nodes-base.webhook'')"
proof -
  let ?above = "exampleServices (\<lambda>n. if n = ''D'' then [''A''] else []) None"
  let ?apart = "exampleServices (\<lambda>n. [''X'']) None"
  have own: "filter (\<lambda>node. pinned [''A'', ''W''] (INode.name node) = None \<and>
             INode.name node \<in> set objectPrototypeProperties)
     (IWorkflowBase.nodes (destinationWorkflow ''D'')) = []"
    by (simp add: destinationWorkflow_def example_defs objectPrototypeProperties_def)
  have order: "spec_pinnedActivatorsInOrder (destinationWorkflow ''D'') (pinned [''A'', ''W'']) =
     [mkNode ''W'' ''n8n-nodes-base.webhook'', mkNode ''A'' ''n8n-nodes-base.scheduleTrigger'']"
    by (rule spec_destination_order)
  have one: "filter (\<lambda>a. spec_pinnedActivator (pinned [''A'', ''W'']) a \<and>
           INode.name a \<in> set (getParentNodes
             (graphOf ?above (destinationWorkflow ''D'')) ''D''))
     (IWorkflowBase.nodes (destinationWorkflow ''D''))
     = [mkNode ''A'' ''n8n-nodes-base.scheduleTrigger'']"
    by (simp add: destinationWorkflow_def example_defs graphOf_def spec_pinnedActivator_def
        endsWith_def toLowerCase_def)
  have none: "filter (\<lambda>a. spec_pinnedActivator (pinned [''A'', ''W'']) a \<and>
           INode.name a \<in> set (getParentNodes
             (graphOf ?apart (destinationWorkflow ''D'')) ''D''))
     (IWorkflowBase.nodes (destinationWorkflow ''D''))
     = []"
    by (simp add: destinationWorkflow_def example_defs graphOf_def spec_pinnedActivator_def
        endsWith_def toLowerCase_def)
  have named: "''D'' \<noteq> []" by simp
  have first: "selectPinnedActivatorStarter ?above
     (destinationWorkflow ''D'') (Some []) (Some (pinned [''A'', ''W''])) (Some ''D'')
     = Some (mkNode ''A'' ''n8n-nodes-base.scheduleTrigger'')"
    by (rule selectPinnedActivatorStarter_full_execution
          [OF own, THEN conjunct1, THEN mp, OF conjI [OF named one]])
  have second: "selectPinnedActivatorStarter ?apart
     (destinationWorkflow ''D'') (Some []) (Some (pinned [''A'', ''W''])) (Some ''D'')
     = Some (mkNode ''W'' ''n8n-nodes-base.webhook'')"
    by (rule selectPinnedActivatorStarter_full_execution
          [OF own, THEN conjunct2, THEN mp, OF conjI [OF order none]])
  show ?thesis
    by (intro conjI own named one first order none second)
qed

text \<open>
  Claim C2 as stated fails on two inputs. For the destination node whose name is the empty
  string, \<open>A\<close> is the only pinned activator among its ancestors, and the selector returns
  \<open>W\<close>: the destination is looked at only when its name is a non-empty string. And in a
  workflow of a webhook named \<open>constructor\<close> without pin data, the pinned schedule trigger
  \<open>A\<close> and the destination \<open>D\<close> below both, \<open>A\<close> is the only pinned activator among the
  ancestors of \<open>D\<close>, and the selector returns the node \<open>constructor\<close>: the lookup of its
  name in the pin data finds the inherited property.
\<close>

theorem selectPinnedActivatorStarter_empty_destination_counterexample:
  "filter (\<lambda>node. pinned [''A'', ''W''] (INode.name node) = None \<and>
             INode.name node \<in> set objectPrototypeProperties)
     (IWorkflowBase.nodes (destinationWorkflow '''')) = [] \<and>
   filter (\<lambda>a. spec_pinnedActivator (pinned [''A'', ''W'']) a \<and>
           INode.name a \<in> set (getParentNodes
             (graphOf (exampleServices (\<lambda>n. if n = '''' then [''A''] else []) None)
                (destinationWorkflow '''')) ''''))
     (IWorkflowBase.nodes (destinationWorkflow ''''))
     = [mkNode ''A'' ''n8n-nodes-base.scheduleTrigger''] \<and>
   selectPinnedActivatorStarter
     (exampleServices (\<lambda>n. if n = '''' then [''A''] else []) None)
     (destinationWorkflow '''') (Some []) (Some (pinned [''A'', ''W''])) (Some '''')
     = Some (mkNode ''W'' ''n8n-nodes-base.webhook'') \<and>
   mkNode ''W'' ''n8n-nodes-base.webhook'' \<noteq> mkNode ''A'' ''n8n-nodes-base.scheduleTrigger'' \<and>
   ''D'' \<noteq> [] \<and>
   filter (\<lambda>a. spec_pinnedActivator (pinned [''A'']) a \<and>
           INode.name a \<in> set (getParentNodes
             (graphOf (exampleServices (\<lambda>n. if n = ''D'' then [''constructor'', ''A''] else [])
                         None)
                inheritedPinWorkflow) ''D''))
     (IWorkflowBase.nodes inheritedPinWorkflow)
     = [mkNode ''A'' ''n8n-nodes-base.scheduleTrigger''] \<and>
   selectPinnedActivatorStarter
     (exampleServices (\<lambda>n. if n = ''D'' then [''constructor'', ''A''] else []) None)
     inheritedPinWorkflow (Some []) (Some (pinned [''A''])) (Some ''D'')
     = Some (mkNode ''constructor'' ''n8n-nodes-base.webhook'') \<and>
   mkNode ''constructor'' ''n8n-nodes-base.webhook'' \<noteq>
     mkNode ''A'' ''n8n-nodes-base.scheduleTrigger''"
proof -
  have order: "findAllPinnedActivators (destinationWorkflow '''') (Some (pinned [''A'', ''W''])) =
     [mkNode ''W'' ''n8n-nodes-base.webhook'', mkNode ''A'' ''n8n-nodes-base.scheduleTrigger'']"
    using destination_order [of "''''"] by (simp add: destinationWorkflow_def mkWorkflow_def)
  have own: "filter (\<lambda>node. pinned [''A'', ''W''] (INode.name node) = None \<and>
             INode.name node \<in> set objectPrototypeProperties)
     (IWorkflowBase.nodes (destinationWorkflow '''')) = []"
    by (simp add: destinationWorkflow_def example_defs objectPrototypeProperties_def)
  have one: "filter (\<lambda>a. spec_pinnedActivator (pinned [''A'', ''W'']) a \<and>
           INode.name a \<in> set (getParentNodes
             (graphOf (exampleServices (\<lambda>n. if n = '''' then [''A''] else []) None)
                (destinationWorkflow '''')) ''''))
     (IWorkflowBase.nodes (destinationWorkflow ''''))
     = [mkNode ''A'' ''n8n-nodes-base.scheduleTrigger'']"
    by (simp add: destinationWorkflow_def example_defs graphOf_def spec_pinnedActivator_def
        endsWith_def toLowerCase_def)
  have empty: "selectPinnedActivatorStarter
     (exampleServices (\<lambda>n. if n = '''' then [''A''] else []) None)
     (destinationWorkflow '''') (Some []) (Some (pinned [''A'', ''W''])) (Some '''')
     = Some (mkNode ''W'' ''n8n-nodes-base.webhook'')"
    by (simp add: order selectPinnedActivatorStarter_def graphOf_def exampleServices_def
        mkNode_def)
  have one': "filter (\<lambda>a. spec_pinnedActivator (pinned [''A'']) a \<and>
           INode.name a \<in> set (getParentNodes
             (graphOf (exampleServices (\<lambda>n. if n = ''D'' then [''constructor'', ''A''] else [])
                         None)
                inheritedPinWorkflow) ''D''))
     (IWorkflowBase.nodes inheritedPinWorkflow)
     = [mkNode ''A'' ''n8n-nodes-base.scheduleTrigger'']"
    by (simp add: inheritedPinWorkflow_def example_defs graphOf_def spec_pinnedActivator_def
        endsWith_def toLowerCase_def)
  have inherited: "selectPinnedActivatorStarter
     (exampleServices (\<lambda>n. if n = ''D'' then [''constructor'', ''A''] else []) None)
     inheritedPinWorkflow (Some []) (Some (pinned [''A''])) (Some ''D'')
     = Some (mkNode ''constructor'' ''n8n-nodes-base.webhook'')"
    by (simp add: inherited_order selectPinnedActivatorStarter_def graphOf_def
        exampleServices_def mkNode_def)
  have differ: "mkNode ''W'' ''n8n-nodes-base.webhook'' \<noteq>
        mkNode ''A'' ''n8n-nodes-base.scheduleTrigger''"
      "mkNode ''constructor'' ''n8n-nodes-base.webhook'' \<noteq>
        mkNode ''A'' ''n8n-nodes-base.scheduleTrigger''"
    by (simp_all add: mkNode_def)
  have named: "''D'' \<noteq> []" by simp
  show ?thesis
    by (intro conjI own one empty differ named one' inherited)
qed

text \<open>
  Claim C3, as far as it holds. Let no node without pin data bear the name of a property
  inherited from \<^verbatim>\<open>Object.prototype\<close>. A partial execution looks at the ancestors of the
  first start node only. If the first pinned activator in tie-break order is among them,
  it is returned. Otherwise, if the first start node has ancestors, nothing is returned;
  if it has none, the pinned activator of that name is returned when there is one.
\<close>

theorem selectPinnedActivatorStarter_partial_execution:
  fixes workflow :: IWorkflowBase
  assumes "filter (\<lambda>node. pd (INode.name node) = None \<and>
                     INode.name node \<in> set objectPrototypeProperties)
             (IWorkflowBase.nodes workflow) = []"
  shows
    "selectPinnedActivatorStarter this workflow (Some (firstStartNodeName # moreStartNodes))
       (Some pd) dest =
     (case spec_pinnedActivatorsInOrder workflow pd of
        [] \<Rightarrow> None
      | firstPinnedActivator # others \<Rightarrow>
          if INode.name firstPinnedActivator
               \<in> set (getParentNodes (graphOf this workflow) firstStartNodeName)
          then Some firstPinnedActivator
          else if getParentNodes (graphOf this workflow) firstStartNodeName = []
          then find (\<lambda>pa. INode.name pa = firstStartNodeName) (firstPinnedActivator # others)
          else None)"
proof -
  have eq: "findAllPinnedActivators workflow (Some pd) = spec_pinnedActivatorsInOrder workflow pd"
    using assms by (rule findAllPinnedActivators_own_pins)
  show ?thesis
    by (auto simp add: selectPinnedActivatorStarter_def eq find_eq_member Let_def
        split: list.splits)
qed

text \<open>
  A start node \<open>D\<close> below the webhook \<open>W\<close> gives \<open>W\<close>, whatever the second start node is; a
  start node \<open>A\<close> without ancestors that is itself a pinned activator gives \<open>A\<close>.
\<close>

theorem selectPinnedActivatorStarter_partial_execution_witness:
  "filter (\<lambda>node. pinned [''A'', ''W''] (INode.name node) = None \<and>
             INode.name node \<in> set objectPrototypeProperties)
     (IWorkflowBase.nodes (destinationWorkflow ''D'')) = [] \<and>
   selectPinnedActivatorStarter
     (exampleServices (\<lambda>n. if n = ''D'' then [''W''] else []) None)
     (destinationWorkflow ''D'') (Some [''D'', ''A'']) (Some (pinned [''A'', ''W''])) None
     = Some (mkNode ''W'' ''n8n-nodes-base.webhook'') \<and>
   selectPinnedActivatorStarter
     (exampleServices (\<lambda>n. []) None)
     (destinationWorkflow ''D'') (Some [''A'']) (Some (pinned [''A'', ''W''])) None
     = Some (mkNode ''A'' ''n8n-nodes-base.scheduleTrigger'')"
proof -
  have own: "filter (\<lambda>node. pinned [''A'', ''W''] (INode.name node) = None \<and>
             INode.name node \<in> set objectPrototypeProperties)
     (IWorkflowBase.nodes (destinationWorkflow ''D'')) = []"
    by (simp add: destinationWorkflow_def example_defs objectPrototypeProperties_def)
  have below: "selectPinnedActivatorStarter
     (exampleServices (\<lambda>n. if n = ''D'' then [''W''] else []) None)
     (destinationWorkflow ''D'') (Some [''D'', ''A'']) (Some (pinned [''A'', ''W''])) None
     = Some (mkNode ''W'' ''n8n-nodes-base.webhook'')"
    using selectPinnedActivatorStarter_partial_execution
        [OF own, of "exampleServices (\<lambda>n. if n = ''D'' then [''W''] else []) None"
            "''D''" "[''A'']" None]
    by (simp add: spec_destination_order graphOf_def exampleServices_def mkNode_def)
  have itself: "selectPinnedActivatorStarter
     (exampleServices (\<lambda>n. []) None)
     (destinationWorkflow ''D'') (Some [''A'']) (Some (pinned [''A'', ''W''])) None
     = Some (mkNode ''A'' ''n8n-nodes-base.scheduleTrigger'')"
    using selectPinnedActivatorStarter_partial_execution
        [OF own, of "exampleServices (\<lambda>n. []) None" "''A''" "[]" None]
    by (simp add: spec_destination_order graphOf_def exampleServices_def mkNode_def)
  show ?thesis
    by (intro conjI own below itself)
qed

text \<open>
  Claim C3 as stated fails on two inputs. A start node that is a pinned activator and has
  ancestors, none of them the first pinned activator, gives nothing: the name of the start
  node is compared only when the start node has no ancestors. And in a workflow of a
  webhook named \<open>constructor\<close> without pin data, the pinned schedule trigger \<open>A\<close> and the
  start node \<open>D\<close> below \<open>A\<close>, the only pinned activator \<open>A\<close> is among the ancestors of
  \<open>D\<close>, and the selector returns nothing: the lookup of the name \<open>constructor\<close> in the pin
  data finds the inherited property, which makes that node the first of the list.
\<close>

theorem selectPinnedActivatorStarter_start_with_parents_counterexample:
  "filter (\<lambda>node. pinned [''A'', ''W''] (INode.name node) = None \<and>
             INode.name node \<in> set objectPrototypeProperties)
     (IWorkflowBase.nodes (destinationWorkflow ''D'')) = [] \<and>
   spec_pinnedActivatorsInOrder (destinationWorkflow ''D'') (pinned [''A'', ''W'']) =
     [mkNode ''W'' ''n8n-nodes-base.webhook'', mkNode ''A'' ''n8n-nodes-base.scheduleTrigger''] \<and>
   ''W'' \<notin> set (getParentNodes
             (graphOf (exampleServices (\<lambda>n. if n = ''A'' then [''D''] else []) None)
                (destinationWorkflow ''D'')) ''A'') \<and>
   find (\<lambda>pa. INode.name pa = ''A'')
     (spec_pinnedActivatorsInOrder (destinationWorkflow ''D'') (pinned [''A'', ''W'']))
     = Some (mkNode ''A'' ''n8n-nodes-base.scheduleTrigger'') \<and>
   selectPinnedActivatorStarter
     (exampleServices (\<lambda>n. if n = ''A'' then [''D''] else []) None)
     (destinationWorkflow ''D'') (Some [''A'']) (Some (pinned [''A'', ''W''])) None = None \<and>
   spec_pinnedActivatorsInOrder inheritedPinWorkflow (pinned [''A'']) =
     [mkNode ''A'' ''n8n-nodes-base.scheduleTrigger''] \<and>
   ''A'' \<in> set (getParentNodes
             (graphOf (exampleServices (\<lambda>n. if n = ''D'' then [''A''] else []) None)
                inheritedPinWorkflow) ''D'') \<and>
   selectPinnedActivatorStarter
     (exampleServices (\<lambda>n. if n = ''D'' then [''A''] else []) None)
     inheritedPinWorkflow (Some [''D'']) (Some (pinned [''A''])) None = None"
proof -
  have order: "findAllPinnedActivators (destinationWorkflow ''D'') (Some (pinned [''A'', ''W''])) =
     [mkNode ''W'' ''n8n-nodes-base.webhook'', mkNode ''A'' ''n8n-nodes-base.scheduleTrigger'']"
    using destination_order [of "''D''"] by (simp add: destinationWorkflow_def mkWorkflow_def)
  have own: "filter (\<lambda>node. pinned [''A'', ''W''] (INode.name node) = None \<and>
             INode.name node \<in> set objectPrototypeProperties)
     (IWorkflowBase.nodes (destinationWorkflow ''D'')) = []"
    by (simp add: destinationWorkflow_def example_defs objectPrototypeProperties_def)
  have apart: "''W'' \<notin> set (getParentNodes
             (graphOf (exampleServices (\<lambda>n. if n = ''A'' then [''D''] else []) None)
                (destinationWorkflow ''D'')) ''A'')"
    by (simp add: graphOf_def exampleServices_def)
  have itself: "find (\<lambda>pa. INode.name pa = ''A'')
     (spec_pinnedActivatorsInOrder (destinationWorkflow ''D'') (pinned [''A'', ''W'']))
     = Some (mkNode ''A'' ''n8n-nodes-base.scheduleTrigger'')"
    by (simp add: spec_destination_order mkNode_def)
  have rejected: "selectPinnedActivatorStarter
     (exampleServices (\<lambda>n. if n = ''A'' then [''D''] else []) None)
     (destinationWorkflow ''D'') (Some [''A'']) (Some (pinned [''A'', ''W''])) None = None"
    by (simp add: order selectPinnedActivatorStarter_def graphOf_def exampleServices_def
        mkNode_def)
  have above: "''A'' \<in> set (getParentNodes
             (graphOf (exampleServices (\<lambda>n. if n = ''D'' then [''A''] else []) None)
                inheritedPinWorkflow) ''D'')"
    by (simp add: graphOf_def exampleServices_def)
  have inherited: "selectPinnedActivatorStarter
     (exampleServices (\<lambda>n. if n = ''D'' then [''A''] else []) None)
     inheritedPinWorkflow (Some [''D'']) (Some (pinned [''A''])) None = None"
    by (simp add: inherited_order selectPinnedActivatorStarter_def graphOf_def
        exampleServices_def mkNode_def)
  show ?thesis
    by (intro conjI own spec_destination_order apart itself rejected spec_inherited_order
        above inherited)
qed


section \<open>Execution-payload builder: properties\<close>

text \<open>
  Claim C4. A custom-trigger request whose trigger name the workflow instance does not
  resolve makes the builder raise \<^verbatim>\<open>BadRequestError\<close>, and the workflow object is then
  as it was before the call: its pin data has not been assigned.
\<close>

theorem buildExecutionPayload_unknown_trigger:
  fixes workflow :: IWorkflowBase and options :: ExecuteOptions
  assumes "triggerData options = Some custom"
    and "getNode workflowInstance (triggerName custom) = None"
  shows "buildExecutionPayload this workflow workflowInstance inputData options
           previousRunData previousPinData =
         (Inl (BadRequestError
            (''Trigger node '' @ dquote @ triggerName custom @ dquote @
             '' not found in workflow'')),
          workflow)"
  using assms by (simp add: buildExecutionPayload_def)

text \<open>A request for the trigger \<open>Missing\<close> on a workflow with nodes \<open>A\<close>, \<open>W\<close> and \<open>D\<close>.\<close>

theorem buildExecutionPayload_unknown_trigger_witness:
  "triggerData (noOptions\<lparr>triggerData := Some \<lparr>triggerName = ''Missing'', payload = []\<rparr>\<rparr>) =
     Some \<lparr>triggerName = ''Missing'', payload = []\<rparr> \<and>
   getNode (newWorkflow (exampleServices (\<lambda>n. []) None)
              \<lparr>WorkflowParameters.id = Some ''wf1'', name = Some ''Example'',
               nodes = IWorkflowBase.nodes (destinationWorkflow ''D''), connections = [],
               active = True, staticData = None, settings = None\<rparr>)
     (triggerName \<lparr>triggerName = ''Missing'', payload = []\<rparr>) = None \<and>
   buildExecutionPayload (exampleServices (\<lambda>n. []) None) (destinationWorkflow ''D'')
     (newWorkflow (exampleServices (\<lambda>n. []) None)
        \<lparr>WorkflowParameters.id = Some ''wf1'', name = Some ''Example'',
         nodes = IWorkflowBase.nodes (destinationWorkflow ''D''), connections = [],
         active = True, staticData = None, settings = None\<rparr>)
     None (noOptions\<lparr>triggerData := Some \<lparr>triggerName = ''Missing'', payload = []\<rparr>\<rparr>)
     None None =
   (Inl (BadRequestError (''Trigger node '' @ dquote @ ''Missing'' @ dquote @
                          '' not found in workflow'')),
    destinationWorkflow ''D'')"
proof -
  have opt: "triggerData (noOptions\<lparr>triggerData := Some \<lparr>triggerName = ''Missing'', payload = []\<rparr>\<rparr>) =
     Some \<lparr>triggerName = ''Missing'', payload = []\<rparr>"
    by simp
  have absent: "getNode (newWorkflow (exampleServices (\<lambda>n. []) None)
              \<lparr>WorkflowParameters.id = Some ''wf1'', name = Some ''Example'',
               nodes = IWorkflowBase.nodes (destinationWorkflow ''D''), connections = [],
               active = True, staticData = None, settings = None\<rparr>)
     (triggerName \<lparr>triggerName = ''Missing'', payload = []\<rparr>) = None"
    by (simp add: getNode_def exampleServices_def destinationWorkflow_def mkWorkflow_def
        mkNode_def)
  show ?thesis
    using opt absent buildExecutionPayload_unknown_trigger [OF opt absent]
    by simp
qed

lemma find_Some_props: "find P xs = Some x \<Longrightarrow> P x \<and> x \<in> set xs"
  by (induction xs) (auto split: if_splits)

text \<open>
  Claim C6. A full execution with input data (no custom trigger, no partial resume) on a
  workflow with activator nodes starts from one of them, pins the input to it, and chooses
  it by priority: a node of type \<^verbatim>\<open>n8n-nodes-base.manualTrigger\<close> if there is one; else a
  node whose lower-cased type contains \<^verbatim>\<open>webhook\<close> if there is one; else the first
  activator node.
\<close>

theorem buildExecutionPayload_start_node_priority:
  fixes workflow :: IWorkflowBase and options :: ExecuteOptions
  assumes "triggerData options = None"
    and "\<not> (previousRunData \<noteq> None \<and> truthy (ExecuteOptions.destinationNode options))"
    and "filter isActivatorNode (IWorkflowBase.nodes workflow) = firstActivator # others"
  shows "\<exists>startNode built updated.
     buildExecutionPayload this workflow workflowInstance (Some input) options
       previousRunData previousPinData = (Inr built, updated) \<and>
     startNode \<in> set (firstActivator # others) \<and>
     ManualRunPayload.triggerToStartFrom built =
       Some \<lparr>TriggerToStartFrom.name = INode.name startNode\<rparr> \<and>
     ManualRunPayload.startNodes built = Some [] \<and>
     ManualRunPayload.workflowData built = updated \<and>
     updated = workflow\<lparr>IWorkflowBase.pinData := Some
       ((case IWorkflowBase.pinData workflow of None \<Rightarrow> Map.empty | Some pd \<Rightarrow> pd)
        (INode.name startNode \<mapsto> [\<lparr>json = input\<rparr>]))\<rparr> \<and>
     ((\<exists>n\<in>set (firstActivator # others). INode.type n = ''n8n-nodes-base.manualTrigger'')
        \<longrightarrow> INode.type startNode = ''n8n-nodes-base.manualTrigger'') \<and>
     ((\<forall>n\<in>set (firstActivator # others). INode.type n \<noteq> ''n8n-nodes-base.manualTrigger'') \<and>
      (\<exists>n\<in>set (firstActivator # others). includes_str (toLowerCase (INode.type n)) ''webhook'')
        \<longrightarrow> includes_str (toLowerCase (INode.type startNode)) ''webhook'') \<and>
     ((\<forall>n\<in>set (firstActivator # others). INode.type n \<noteq> ''n8n-nodes-base.manualTrigger'') \<and>
      (\<forall>n\<in>set (firstActivator # others).
          \<not> includes_str (toLowerCase (INode.type n)) ''webhook'')
        \<longrightarrow> startNode = firstActivator)"
proof -
  let ?acts = "firstActivator # others"
  let ?manual = "\<lambda>n. INode.type n = ''n8n-nodes-base.manualTrigger''"
  let ?hook = "\<lambda>n. includes_str (toLowerCase (INode.type n)) ''webhook''"
  define startNode where "startNode =
    (case (case find ?manual ?acts of None \<Rightarrow> find ?hook ?acts | Some n \<Rightarrow> Some n) of
       None \<Rightarrow> firstActivator | Some n \<Rightarrow> n)"
  have mem: "startNode \<in> set ?acts"
  proof (cases "find ?manual ?acts")
    case (Some m)
    then have "startNode = m" unfolding startNode_def by (simp only: option.case)
    with Some show ?thesis using find_Some_props [of ?manual ?acts m] by blast
  next
    case None
    note none = None
    show ?thesis
    proof (cases "find ?hook ?acts")
      case (Some w)
      then have "startNode = w" unfolding startNode_def by (simp only: none option.case)
      with Some show ?thesis using find_Some_props [of ?hook ?acts w] by blast
    next
      case None
      then have "startNode = firstActivator"
        unfolding startNode_def by (simp only: none option.case)
      then show ?thesis by simp
    qed
  qed
  have p1: "(\<exists>n\<in>set ?acts. ?manual n) \<longrightarrow> ?manual startNode"
  proof
    assume "\<exists>n\<in>set ?acts. ?manual n"
    then have "find ?manual ?acts \<noteq> None"
      by (simp only: find_None_iff) blast
    then obtain m where m: "find ?manual ?acts = Some m" by blast
    then have "?manual m" by (rule find_Some_props [THEN conjunct1])
    moreover have "startNode = m" unfolding startNode_def by (simp only: m option.case)
    ultimately show "?manual startNode" by simp
  qed
  have p2: "(\<forall>n\<in>set ?acts. \<not> ?manual n) \<and> (\<exists>n\<in>set ?acts. ?hook n) \<longrightarrow> ?hook startNode"
  proof
    assume h: "(\<forall>n\<in>set ?acts. \<not> ?manual n) \<and> (\<exists>n\<in>set ?acts. ?hook n)"
    then have none: "find ?manual ?acts = None"
      by (simp only: find_None_iff) blast
    from h have "find ?hook ?acts \<noteq> None"
      by (simp only: find_None_iff) blast
    then obtain w where w: "find ?hook ?acts = Some w" by blast
    then have "?hook w" by (rule find_Some_props [THEN conjunct1])
    moreover have "startNode = w" unfolding startNode_def by (simp only: none w option.case)
    ultimately show "?hook startNode" by simp
  qed
  have p3: "(\<forall>n\<in>set ?acts. \<not> ?manual n) \<and> (\<forall>n\<in>set ?acts. \<not> ?hook n)
      \<longrightarrow> startNode = firstActivator"
  proof
    assume h: "(\<forall>n\<in>set ?acts. \<not> ?manual n) \<and> (\<forall>n\<in>set ?acts. \<not> ?hook n)"
    then have "find ?manual ?acts = None" and "find ?hook ?acts = None"
      by (simp_all only: find_None_iff) blast+
    then show "startNode = firstActivator"
      unfolding startNode_def by (simp only: option.case)
  qed
  have run: "buildExecutionPayload this workflow workflowInstance (Some input) options
       previousRunData previousPinData =
     (Inr ((if truthy (ExecuteOptions.destinationNode options)
            then (\<lambda>p. p\<lparr>ManualRunPayload.destinationNode := ExecuteOptions.destinationNode options\<rparr>)
            else (\<lambda>p. p))
           \<lparr>ManualRunPayload.workflowData = workflow\<lparr>IWorkflowBase.pinData := Some
               ((case IWorkflowBase.pinData workflow of None \<Rightarrow> Map.empty | Some pd \<Rightarrow> pd)
                (INode.name startNode \<mapsto> [\<lparr>json = input\<rparr>]))\<rparr>,
            runData = None, startNodes = Some [], destinationNode = None,
            dirtyNodeNames = None,
            triggerToStartFrom = Some \<lparr>TriggerToStartFrom.name = INode.name startNode\<rparr>,
            agentRequest = None\<rparr>),
      workflow\<lparr>IWorkflowBase.pinData := Some
        ((case IWorkflowBase.pinData workflow of None \<Rightarrow> Map.empty | Some pd \<Rightarrow> pd)
         (INode.name startNode \<mapsto> [\<lparr>json = input\<rparr>]))\<rparr>)"
    using assms unfolding startNode_def
    by (simp add: buildExecutionPayload_def Let_def del: find.simps)
  show ?thesis
    apply (rule exI [of _ startNode])
    apply (subst run)
    using mem p1 p2 p3 by (auto)
qed

text \<open>
  Scenario B: with a webhook \<open>W\<close> and a manual trigger \<open>M\<close>, input data and no destination,
  \<open>M\<close> is chosen and the input is pinned to it.
\<close>

theorem buildExecutionPayload_start_node_priority_witness:
  "triggerData noOptions = None \<and>
   \<not> ((None :: IRunData option) \<noteq> None \<and> truthy (ExecuteOptions.destinationNode noOptions)) \<and>
   filter isActivatorNode (IWorkflowBase.nodes scenarioB) =
     [mkNode ''W'' ''n8n-nodes-base.webhook'', mkNode ''M'' ''n8n-nodes-base.manualTrigger''] \<and>
   (case buildExecutionPayload (exampleServices (\<lambda>n. []) None) scenarioB
           (graphOf (exampleServices (\<lambda>n. []) None) scenarioB)
           (Some [(''a'', JNum 1)]) noOptions None None of
      (Inl e, updated) \<Rightarrow> False
    | (Inr built, updated) \<Rightarrow>
        ManualRunPayload.triggerToStartFrom built = Some \<lparr>TriggerToStartFrom.name = ''M''\<rparr> \<and>
        ManualRunPayload.destinationNode built = None \<and>
        IWorkflowBase.pinData updated =
          Some [''M'' \<mapsto> [\<lparr>json = [(''a'', JNum 1)]\<rparr>]])"
proof -
  have h1: "triggerData noOptions = None"
    by (simp add: noOptions_def)
  have h2: "\<not> ((None :: IRunData option) \<noteq> None \<and>
               truthy (ExecuteOptions.destinationNode noOptions))"
    by simp
  have h3: "filter isActivatorNode (IWorkflowBase.nodes scenarioB) =
     mkNode ''W'' ''n8n-nodes-base.webhook'' # [mkNode ''M'' ''n8n-nodes-base.manualTrigger'']"
    by (simp add: scenarioB_def mkWorkflow_def mkNode_def isActivatorNode_def endsWith_def
        toLowerCase_def)
  from buildExecutionPayload_start_node_priority
         [OF h1 h2 h3, of "exampleServices (\<lambda>n. []) None"
            "graphOf (exampleServices (\<lambda>n. []) None) scenarioB" "[(''a'', JNum 1)]" None]
  obtain startNode built updated where
    run: "buildExecutionPayload (exampleServices (\<lambda>n. []) None) scenarioB
           (graphOf (exampleServices (\<lambda>n. []) None) scenarioB)
           (Some [(''a'', JNum 1)]) noOptions None None = (Inr built, updated)"
    and mem: "startNode \<in> set [mkNode ''W'' ''n8n-nodes-base.webhook'',
                                mkNode ''M'' ''n8n-nodes-base.manualTrigger'']"
    and trig: "ManualRunPayload.triggerToStartFrom built =
                 Some \<lparr>TriggerToStartFrom.name = INode.name startNode\<rparr>"
    and upd: "updated = scenarioB\<lparr>IWorkflowBase.pinData := Some
       ((case IWorkflowBase.pinData scenarioB of None \<Rightarrow> Map.empty | Some pd \<Rightarrow> pd)
        (INode.name startNode \<mapsto> [\<lparr>json = [(''a'', JNum 1)]\<rparr>]))\<rparr>"
    and manual: "(\<exists>n\<in>set [mkNode ''W'' ''n8n-nodes-base.webhook'',
                             mkNode ''M'' ''n8n-nodes-base.manualTrigger''].
                    INode.type n = ''n8n-nodes-base.manualTrigger'')
                 \<longrightarrow> INode.type startNode = ''n8n-nodes-base.manualTrigger''"
    by blast
  from manual have "INode.type startNode = ''n8n-nodes-base.manualTrigger''"
    by (simp add: mkNode_def)
  with mem have start: "startNode = mkNode ''M'' ''n8n-nodes-base.manualTrigger''"
    by (auto simp add: mkNode_def)
  have dest: "ManualRunPayload.destinationNode built = None"
    using run by (auto simp add: buildExecutionPayload_def noOptions_def scenarioB_def
        mkWorkflow_def mkNode_def isActivatorNode_def endsWith_def toLowerCase_def Let_def)
  show ?thesis
    using h1 h3 run trig upd start dest
    by (simp add: mkNode_def scenarioB_def mkWorkflow_def)
qed

section \<open>Execution orchestrator: properties\<close>

text \<open>
  Claim C5. On a workflow without activator nodes, a request with input data that is
  neither a custom-trigger request nor a partial resume (the workflow is found; a prior
  execution, if one is named, is found and has no run data, or no destination is given)
  raises \<^verbatim>\<open>BadRequestError\<close>, and no collaborator with an effect has been called: the run
  engine is not invoked.
\<close>

theorem executeWorkflow_no_activators:
  fixes options :: ExecuteOptions and workflowId :: string
  assumes "workflowRepository_findOneBy this workflowId = Inr (Some found)"
    and "filter isActivatorNode (IWorkflowBase.nodes found) = []"
    and "triggerData options = None"
    and "case ExecuteOptions.executionId options of
           None \<Rightarrow> True
         | Some previousId \<Rightarrow>
             previousId = [] \<or>
             (\<exists>previous. executionRepository_findSingleExecution this previousId =
                           Inr (Some previous) \<and>
                ((case IExecutionResponse.data previous of
                    None \<Rightarrow> None | Some d \<Rightarrow> ResultData.runData (resultData d)) = None \<or>
                 \<not> truthy (ExecuteOptions.destinationNode options)))"
  shows "executeWorkflow this workflowId (Some input) options user =
           (Inl (BadRequestError ''Workflow has no trigger or webhook nodes''), [])"
proof (cases "ExecuteOptions.executionId options")
  case None
  with assms(1-3) show ?thesis
    by (simp add: executeWorkflow_def buildExecutionPayload_def Let_def)
next
  case (Some previousId)
  show ?thesis
  proof (cases "previousId = []")
    case True
    with Some assms(1-3) show ?thesis
      by (simp add: executeWorkflow_def buildExecutionPayload_def Let_def)
  next
    case False
    with Some assms(4) obtain previous where
      prev: "executionRepository_findSingleExecution this previousId = Inr (Some previous)"
      and cls: "(case IExecutionResponse.data previous of
                   None \<Rightarrow> None | Some d \<Rightarrow> ResultData.runData (resultData d)) = None \<or>
                \<not> truthy (ExecuteOptions.destinationNode options)"
      by auto
    from cls show ?thesis
    proof
      assume "(case IExecutionResponse.data previous of
                   None \<Rightarrow> None | Some d \<Rightarrow> ResultData.runData (resultData d)) = None"
      with Some False prev assms(1-3) show ?thesis
        by (simp add: executeWorkflow_def buildExecutionPayload_def Let_def)
    next
      assume "\<not> truthy (ExecuteOptions.destinationNode options)"
      with Some False prev assms(1-3) show ?thesis
        by (simp add: executeWorkflow_def buildExecutionPayload_def Let_def)
    qed
  qed
qed

text \<open>A workflow holding a \<open>set\<close> node and a \<open>respondToWebhook\<close> node, run with input.\<close>

theorem executeWorkflow_no_activators_witness:
  "workflowRepository_findOneBy
     ((exampleServices (\<lambda>n. []) None)
        \<lparr>workflowRepository_findOneBy := (\<lambda>i. Inr (Some noActivators))\<rparr>) ''wf1'' =
     Inr (Some noActivators) \<and>
   filter isActivatorNode (IWorkflowBase.nodes noActivators) = [] \<and>
   triggerData noOptions = None \<and>
   ExecuteOptions.executionId noOptions = None \<and>
   executeWorkflow
     ((exampleServices (\<lambda>n. []) None)
        \<lparr>workflowRepository_findOneBy := (\<lambda>i. Inr (Some noActivators))\<rparr>)
     ''wf1'' (Some [(''a'', JNum 1)]) noOptions \<lparr>User.id = ''u1''\<rparr> =
   (Inl (BadRequestError ''Workflow has no trigger or webhook nodes''), [])"
proof -
  have h1: "workflowRepository_findOneBy
     ((exampleServices (\<lambda>n. []) None)
        \<lparr>workflowRepository_findOneBy := (\<lambda>i. Inr (Some noActivators))\<rparr>) ''wf1'' =
     Inr (Some noActivators)"
    by simp
  have h2: "filter isActivatorNode (IWorkflowBase.nodes noActivators) = []"
    by (simp add: noActivators_def mkWorkflow_def mkNode_def isActivatorNode_def endsWith_def
        toLowerCase_def)
  have h3: "triggerData noOptions = None" and h4: "ExecuteOptions.executionId noOptions = None"
    by (simp_all add: noOptions_def)
  have h5: "case ExecuteOptions.executionId noOptions of
           None \<Rightarrow> True
         | Some previousId \<Rightarrow>
             previousId = [] \<or>
             (\<exists>previous. executionRepository_findSingleExecution
                 ((exampleServices (\<lambda>n. []) None)
                    \<lparr>workflowRepository_findOneBy := (\<lambda>i. Inr (Some noActivators))\<rparr>)
                 previousId = Inr (Some previous) \<and>
                ((case IExecutionResponse.data previous of
                    None \<Rightarrow> None | Some d \<Rightarrow> ResultData.runData (resultData d)) = None \<or>
                 \<not> truthy (ExecuteOptions.destinationNode noOptions)))"
    by (simp add: h4)
  show ?thesis
    using h1 h2 h3 h4
      executeWorkflow_no_activators [OF h1 h2 h3 h5, of "[(''a'', JNum 1)]" "\<lparr>User.id = ''u1''\<rparr>"]
    by simp
qed


section \<open>Manual execution: properties\<close>

lemma runPayloads_simps:
  "runPayloads [] = []"
  "runPayloads (xs @ ys) = runPayloads xs @ runPayloads ys"
  "runPayloads [Run d] = [d]"
  by (simp_all add: runPayloads_def)

lemma runData_manualExecutionData:
  "IWorkflowExecutionDataProcess.runData
     (manualExecutionData this request user push streaming response w pins pt) =
   ManualRunPayload.runData request"
  by (simp add: manualExecutionData_def Let_def split: option.splits)

lemma waitForWebhook_events:
  "waitForWebhook this user w r push d t = (result, events) \<Longrightarrow>
   \<not> list_ex isRun events \<and> runPayloads events = []"
  by (auto simp add: waitForWebhook_def Let_def runPayloads_def split: sum.splits)

text \<open>
  Claim C1, evaluated where it fails. A workflow holding one webhook node, without pin data,
  is run without input and without options; the webhook check answers that the execution
  has to wait. \<^verbatim>\<open>executeManually\<close> returns \<^verbatim>\<open>{ waitingForWebhook: true }\<close>, and
  \<^verbatim>\<open>executeWorkflow\<close> reads \<^verbatim>\<open>result.executionId!\<close> from it: the result has the status
  \<^verbatim>\<open>waiting\<close> and the run engine is not invoked, but its \<^verbatim>\<open>executionId\<close> is
  \<^verbatim>\<open>undefined\<close>, not a string.
\<close>

theorem executeWorkflow_waiting_without_executionId:
  "executeWorkflow waitingServices ''wf1'' None noOptions \<lparr>User.id = ''u1''\<rparr> =
     (Inr \<lparr>ExecuteWorkflowResult.executionId = None, status = Some ''waiting''\<rparr>,
      [NeedsWebhook
         \<lparr>NeedsWebhookOptions.userId = ''u1'', workflowEntity = webhookOnly,
          additionalData = \<lparr>IWorkflowExecuteAdditionalData.userId = ''u1'', workflowId = ''wf1''\<rparr>,
          runData = None, pushRef = None, destinationNode = None,
          triggerToStartFrom = None\<rparr>])"
  by (simp add: executeWorkflow_def buildExecutionPayload_def executeManually_def
      startManualExecution_def waitForWebhook_def selectPinnedActivatorStarter_def
      exceptOtherTrigger_def
      waitingServices_def exampleServices_def noOptions_def webhookOnly_def mkWorkflow_def
      mkNode_def Let_def)

text \<open>
  On every path: a result that waits for a webhook carries no execution id, and the run
  engine has not been invoked.
\<close>

lemma startManualExecution_waiting:
  assumes "startManualExecution this request user push streaming response pins pt =
             (Inr result, events)"
    and "waitingForWebhook result = Some True"
  shows "ManualResult.executionId result = None \<and> \<not> list_ex isRun events"
  using assms
  by (auto simp add: startManualExecution_def Let_def
      split: sum.splits if_splits bool.splits prod.splits dest: waitForWebhook_events)

lemma executeManually_waiting:
  assumes "executeManually this request user push streaming response =
             (Inr result, events)"
    and "waitingForWebhook result = Some True"
  shows "ManualResult.executionId result = None \<and> \<not> list_ex isRun events"
proof -
  from assms(1) obtain request' pins pt where
    "startManualExecution this request' user push streaming response pins pt =
       (Inr result, events)"
    by (auto simp add: executeManually_def Let_def split: sum.splits)
  from startManualExecution_waiting [OF this assms(2)] show ?thesis .
qed

lemma executeWorkflow_waiting:
  fixes options :: ExecuteOptions and workflowId :: string
  assumes "executeWorkflow this workflowId inputData options user = (Inr result, events)"
    and "status result = Some ''waiting''"
  shows "ExecuteWorkflowResult.executionId result = None \<and> \<not> list_ex isRun events"
proof -
  from assms obtain built manual where
    m: "executeManually this built user None None None = (Inr manual, events)"
    and r: "waitingForWebhook manual = Some True"
    and e: "ExecuteWorkflowResult.executionId result = ManualResult.executionId manual"
    by (auto simp add: executeWorkflow_def Let_def
        split: sum.splits option.splits if_splits prod.splits)
  from executeManually_waiting [OF m r] e show ?thesis by simp
qed

text \<open>
  When no pinned trigger is left and run data, start nodes or destination node are missing,
  a positive answer of the webhook check makes the execution wait: the result carries the
  waiting flag, and only the webhook check has been called.
\<close>

lemma startManualExecution_needsWebhook:
  fixes request :: ManualRunPayload
  assumes "ManualRunPayload.runData request = None \<or>
           ManualRunPayload.startNodes request = None \<or>
           ManualRunPayload.startNodes request = Some [] \<or>
           ManualRunPayload.destinationNode request = None"
    and "getBase this (User.id user) (IWorkflowBase.id (ManualRunPayload.workflowData request)) =
           Inr base"
    and "testWebhooks_needsWebhook this
           \<lparr>NeedsWebhookOptions.userId = User.id user,
            workflowEntity = ManualRunPayload.workflowData request,
            additionalData = base,
            runData = ManualRunPayload.runData request,
            pushRef = push,
            destinationNode = ManualRunPayload.destinationNode request,
            triggerToStartFrom = ManualRunPayload.triggerToStartFrom request\<rparr> = Inr True"
  shows "startManualExecution this request user push streaming response pins None =
           (Inr \<lparr>ManualResult.executionId = None, waitingForWebhook = Some True\<rparr>,
            [NeedsWebhook
               \<lparr>NeedsWebhookOptions.userId = User.id user,
                workflowEntity = ManualRunPayload.workflowData request,
                additionalData = base,
                runData = ManualRunPayload.runData request,
                pushRef = push,
                destinationNode = ManualRunPayload.destinationNode request,
                triggerToStartFrom = ManualRunPayload.triggerToStartFrom request\<rparr>])"
  using assms
  by (auto simp add: startManualExecution_def waitForWebhook_def Let_def)

lemma startManualExecution_runData:
  "list_all (\<lambda>d. IWorkflowExecutionDataProcess.runData d = ManualRunPayload.runData request)
     (runPayloads (snd (startManualExecution this request user push streaming response
                          pins pt)))"
proof -
  obtain result events where
    ex: "startManualExecution this request user push streaming response pins pt =
           (result, events)"
    by (cases "startManualExecution this request user push streaming response pins pt")
  have "list_all (\<lambda>d. IWorkflowExecutionDataProcess.runData d = ManualRunPayload.runData request)
          (runPayloads events)"
    using ex
    by (auto simp add: startManualExecution_def Let_def runData_manualExecutionData
        runPayloads_simps
        split: sum.splits if_splits bool.splits prod.splits
        dest!: waitForWebhook_events)
  with ex show ?thesis by simp
qed

lemma executeManually_runData:
  fixes request :: ManualRunPayload
  assumes "(case ManualRunPayload.destinationNode request of
              None \<Rightarrow> Inr False
            | Some d \<Rightarrow>
                if d \<noteq> []
                then isDestinationNodeATrigger this d (ManualRunPayload.workflowData request)
                else Inr False) = Inr destinationIsTrigger"
  shows "list_all
           (\<lambda>d. IWorkflowExecutionDataProcess.runData d =
                  (if destinationIsTrigger then None else ManualRunPayload.runData request))
           (runPayloads (snd (executeManually this request user push streaming response)))"
proof (cases destinationIsTrigger)
  case True
  with assms show ?thesis
    using startManualExecution_runData [of "request\<lparr>ManualRunPayload.runData := None\<rparr>"]
    by (simp add: executeManually_def Let_def)
next
  case False
  with assms show ?thesis
    using startManualExecution_runData [of request]
    by (simp add: executeManually_def Let_def)
qed

lemma executeManually_ignores_runData:
  fixes request :: ManualRunPayload
  assumes "(case ManualRunPayload.destinationNode request of
              None \<Rightarrow> Inr False
            | Some d \<Rightarrow>
                if d \<noteq> []
                then isDestinationNodeATrigger this d (ManualRunPayload.workflowData request)
                else Inr False) = Inr True"
  shows "executeManually this request user push streaming response =
         executeManually this (request\<lparr>ManualRunPayload.runData := None\<rparr>) user push streaming
           response"
  using assms
  by (cases "ManualRunPayload.destinationNode request")
     (simp_all add: executeManually_def Let_def split: if_splits)

text \<open>
  Claim C10, as the code has it. When the destination node has a non-empty name, which
  names a node of the workflow whose type is of group \<^verbatim>\<open>trigger\<close>, the request is run as
  the same request without run data, and every payload handed to the run engine has no run
  data. When there is no destination node, or its name is empty, or no node has that name,
  or the node's type is not of group \<^verbatim>\<open>trigger\<close>, every payload handed to the run engine
  carries the run data of the request.
\<close>

theorem executeManually_trigger_destination:
  fixes request :: ManualRunPayload
  shows
    "(ManualRunPayload.destinationNode request = Some d \<and> d \<noteq> [] \<and>
      find (\<lambda>n. INode.name n = d)
        (IWorkflowBase.nodes (ManualRunPayload.workflowData request)) = Some n \<and>
      nodeTypes_group this (INode.type n) (typeVersion n) = Inr g \<and> ''trigger'' \<in> set g
      \<longrightarrow>
        executeManually this request user push streaming response =
          executeManually this (request\<lparr>ManualRunPayload.runData := None\<rparr>) user push
            streaming response \<and>
        list_all (\<lambda>data. IWorkflowExecutionDataProcess.runData data = None)
          (runPayloads (snd (executeManually this request user push streaming response)))) \<and>
     ((ManualRunPayload.destinationNode request = None \<or>
       ManualRunPayload.destinationNode request = Some [] \<or>
       (ManualRunPayload.destinationNode request = Some d \<and>
        (find (\<lambda>n. INode.name n = d)
           (IWorkflowBase.nodes (ManualRunPayload.workflowData request)) = None \<or>
         (find (\<lambda>n. INode.name n = d)
            (IWorkflowBase.nodes (ManualRunPayload.workflowData request)) = Some n \<and>
          nodeTypes_group this (INode.type n) (typeVersion n) = Inr g \<and>
          ''trigger'' \<notin> set g))))
      \<longrightarrow>
        list_all (\<lambda>data. IWorkflowExecutionDataProcess.runData data =
                          ManualRunPayload.runData request)
          (runPayloads (snd (executeManually this request user push streaming response))))"
proof (intro conjI impI)
  assume h: "ManualRunPayload.destinationNode request = Some d \<and> d \<noteq> [] \<and>
      find (\<lambda>n. INode.name n = d)
        (IWorkflowBase.nodes (ManualRunPayload.workflowData request)) = Some n \<and>
      nodeTypes_group this (INode.type n) (typeVersion n) = Inr g \<and> ''trigger'' \<in> set g"
  then have check: "(case ManualRunPayload.destinationNode request of
              None \<Rightarrow> Inr False
            | Some d \<Rightarrow>
                if d \<noteq> []
                then isDestinationNodeATrigger this d (ManualRunPayload.workflowData request)
                else Inr False) = Inr True"
    by (simp add: isDestinationNodeATrigger_def Let_def)
  show "executeManually this request user push streaming response =
          executeManually this (request\<lparr>ManualRunPayload.runData := None\<rparr>) user push
            streaming response"
    by (rule executeManually_ignores_runData [OF check])
  show "list_all (\<lambda>data. IWorkflowExecutionDataProcess.runData data = None)
          (runPayloads (snd (executeManually this request user push streaming response)))"
    using executeManually_runData [OF check, of user push streaming response] by simp
next
  assume h: "ManualRunPayload.destinationNode request = None \<or>
       ManualRunPayload.destinationNode request = Some [] \<or>
       (ManualRunPayload.destinationNode request = Some d \<and>
        (find (\<lambda>n. INode.name n = d)
           (IWorkflowBase.nodes (ManualRunPayload.workflowData request)) = None \<or>
         (find (\<lambda>n. INode.name n = d)
            (IWorkflowBase.nodes (ManualRunPayload.workflowData request)) = Some n \<and>
          nodeTypes_group this (INode.type n) (typeVersion n) = Inr g \<and>
          ''trigger'' \<notin> set g)))"
  then have check: "(case ManualRunPayload.destinationNode request of
              None \<Rightarrow> Inr False
            | Some d \<Rightarrow>
                if d \<noteq> []
                then isDestinationNodeATrigger this d (ManualRunPayload.workflowData request)
                else Inr False) = Inr False"
    by (auto simp add: isDestinationNodeATrigger_def Let_def)
  show "list_all (\<lambda>data. IWorkflowExecutionDataProcess.runData data =
                          ManualRunPayload.runData request)
          (runPayloads (snd (executeManually this request user push streaming response)))"
    using executeManually_runData [OF check, of user push streaming response] by simp
qed

lemmas manual_eval =
  executeManually_def startManualExecution_def waitForWebhook_def manualExecutionData_def
  isDestinationNodeATrigger_def selectPinnedActivatorStarter_def exceptOtherTrigger_def
  hasRunData_def hasTruthyProperty_def objectPrototypeProperties_def
  runPayloads_def manualRequest_def triggerAndSet_def exampleServices_def
  mkWorkflow_def mkNode_def endsWith_def toLowerCase_def Let_def

text \<open>
  With destination \<open>A\<close>, a schedule trigger, the run engine receives no run data; with
  destination \<open>X\<close>, a \<open>set\<close> node, it receives the run data of the request.
\<close>

theorem executeManually_trigger_destination_witness:
  "ManualRunPayload.destinationNode
     (manualRequest (triggerAndSet ''A'') (Some ''A'') (Some [''X'' \<mapsto> [JNull]])) = Some ''A'' \<and>
   ''A'' \<noteq> [] \<and>
   find (\<lambda>n. INode.name n = ''A'') (IWorkflowBase.nodes (triggerAndSet ''A'')) =
     Some (mkNode ''A'' ''n8n-nodes-base.scheduleTrigger'') \<and>
   nodeTypes_group (exampleServices (\<lambda>n. []) None) ''n8n-nodes-base.scheduleTrigger'' 1 =
     Inr [''trigger''] \<and>
   map IWorkflowExecutionDataProcess.runData
     (runPayloads (snd (executeManually (exampleServices (\<lambda>n. []) None)
        (manualRequest (triggerAndSet ''A'') (Some ''A'') (Some [''X'' \<mapsto> [JNull]]))
        \<lparr>User.id = ''u1''\<rparr> None None None))) = [None] \<and>
   find (\<lambda>n. INode.name n = ''X'') (IWorkflowBase.nodes (triggerAndSet ''A'')) =
     Some (mkNode ''X'' ''n8n-nodes-base.set'') \<and>
   nodeTypes_group (exampleServices (\<lambda>n. []) None) ''n8n-nodes-base.set'' 1 =
     Inr [''transform''] \<and>
   map IWorkflowExecutionDataProcess.runData
     (runPayloads (snd (executeManually (exampleServices (\<lambda>n. []) None)
        (manualRequest (triggerAndSet ''A'') (Some ''X'') (Some [''X'' \<mapsto> [JNull]]))
        \<lparr>User.id = ''u1''\<rparr> None None None))) = [Some [''X'' \<mapsto> [JNull]]]"
proof -
  have len1: "length (runPayloads (snd (executeManually (exampleServices (\<lambda>n. []) None)
        (manualRequest (triggerAndSet ''A'') (Some ''A'') (Some [''X'' \<mapsto> [JNull]]))
        \<lparr>User.id = ''u1''\<rparr> None None None))) = 1"
    by (simp add: manual_eval)
  have len2: "length (runPayloads (snd (executeManually (exampleServices (\<lambda>n. []) None)
        (manualRequest (triggerAndSet ''A'') (Some ''X'') (Some [''X'' \<mapsto> [JNull]]))
        \<lparr>User.id = ''u1''\<rparr> None None None))) = 1"
    by (simp add: manual_eval)
  have f1: "find (\<lambda>n. INode.name n = ''A'') (IWorkflowBase.nodes (triggerAndSet ''A'')) =
     Some (mkNode ''A'' ''n8n-nodes-base.scheduleTrigger'')"
    and f2: "find (\<lambda>n. INode.name n = ''X'') (IWorkflowBase.nodes (triggerAndSet ''A'')) =
     Some (mkNode ''X'' ''n8n-nodes-base.set'')"
    by (simp_all add: triggerAndSet_def mkWorkflow_def mkNode_def)
  have g1: "nodeTypes_group (exampleServices (\<lambda>n. []) None)
              ''n8n-nodes-base.scheduleTrigger'' 1 = Inr [''trigger'']"
    and g2: "nodeTypes_group (exampleServices (\<lambda>n. []) None) ''n8n-nodes-base.set'' 1 =
              Inr [''transform'']"
    by (simp_all add: exampleServices_def endsWith_def toLowerCase_def)
  have hyp1: "ManualRunPayload.destinationNode
       (manualRequest (triggerAndSet ''A'') (Some ''A'') (Some [''X'' \<mapsto> [JNull]])) =
         Some ''A'' \<and> ''A'' \<noteq> [] \<and>
      find (\<lambda>n. INode.name n = ''A'')
        (IWorkflowBase.nodes (ManualRunPayload.workflowData
           (manualRequest (triggerAndSet ''A'') (Some ''A'') (Some [''X'' \<mapsto> [JNull]])))) =
         Some (mkNode ''A'' ''n8n-nodes-base.scheduleTrigger'') \<and>
      nodeTypes_group (exampleServices (\<lambda>n. []) None)
        (INode.type (mkNode ''A'' ''n8n-nodes-base.scheduleTrigger''))
        (typeVersion (mkNode ''A'' ''n8n-nodes-base.scheduleTrigger'')) = Inr [''trigger''] \<and>
      ''trigger'' \<in> set [''trigger'']"
    using f1 g1 by (simp add: manualRequest_def mkNode_def)
  have a1: "list_all (\<lambda>data. IWorkflowExecutionDataProcess.runData data = None)
     (runPayloads (snd (executeManually (exampleServices (\<lambda>n. []) None)
        (manualRequest (triggerAndSet ''A'') (Some ''A'') (Some [''X'' \<mapsto> [JNull]]))
        \<lparr>User.id = ''u1''\<rparr> None None None)))"
    by (rule executeManually_trigger_destination
              [THEN conjunct1, THEN mp, OF hyp1, THEN conjunct2])
  have hyp2: "ManualRunPayload.destinationNode
         (manualRequest (triggerAndSet ''A'') (Some ''X'') (Some [''X'' \<mapsto> [JNull]])) = None \<or>
       ManualRunPayload.destinationNode
         (manualRequest (triggerAndSet ''A'') (Some ''X'') (Some [''X'' \<mapsto> [JNull]])) =
         Some [] \<or>
       (ManualRunPayload.destinationNode
          (manualRequest (triggerAndSet ''A'') (Some ''X'') (Some [''X'' \<mapsto> [JNull]])) =
          Some ''X'' \<and>
        (find (\<lambda>n. INode.name n = ''X'')
           (IWorkflowBase.nodes (ManualRunPayload.workflowData
              (manualRequest (triggerAndSet ''A'') (Some ''X'') (Some [''X'' \<mapsto> [JNull]])))) =
           None \<or>
         (find (\<lambda>n. INode.name n = ''X'')
            (IWorkflowBase.nodes (ManualRunPayload.workflowData
               (manualRequest (triggerAndSet ''A'') (Some ''X'') (Some [''X'' \<mapsto> [JNull]])))) =
            Some (mkNode ''X'' ''n8n-nodes-base.set'') \<and>
          nodeTypes_group (exampleServices (\<lambda>n. []) None)
            (INode.type (mkNode ''X'' ''n8n-nodes-base.set''))
            (typeVersion (mkNode ''X'' ''n8n-nodes-base.set'')) = Inr [''transform''] \<and>
          ''trigger'' \<notin> set [''transform''])))"
    using f2 g2 by (simp add: manualRequest_def mkNode_def)
  have "list_all (\<lambda>data. IWorkflowExecutionDataProcess.runData data =
          ManualRunPayload.runData
            (manualRequest (triggerAndSet ''A'') (Some ''X'') (Some [''X'' \<mapsto> [JNull]])))
     (runPayloads (snd (executeManually (exampleServices (\<lambda>n. []) None)
        (manualRequest (triggerAndSet ''A'') (Some ''X'') (Some [''X'' \<mapsto> [JNull]]))
        \<lparr>User.id = ''u1''\<rparr> None None None)))"
    by (rule executeManually_trigger_destination [THEN conjunct2, THEN mp, OF hyp2])
  then have a2: "list_all (\<lambda>data. IWorkflowExecutionDataProcess.runData data =
                              Some [''X'' \<mapsto> [JNull]])
     (runPayloads (snd (executeManually (exampleServices (\<lambda>n. []) None)
        (manualRequest (triggerAndSet ''A'') (Some ''X'') (Some [''X'' \<mapsto> [JNull]]))
        \<lparr>User.id = ''u1''\<rparr> None None None)))"
    by (simp add: manualRequest_def)
  have one: "length xs = 1 \<Longrightarrow> list_all (\<lambda>x. f x = v) xs \<Longrightarrow> map f xs = [v]"
    for f :: "'a \<Rightarrow> 'b" and v xs
    by (cases xs) simp_all
  show ?thesis
    using one [OF len1 a1] one [OF len2 a2] f1 f2 g1 g2
    by (simp add: manualRequest_def)
qed

text \<open>
  Claim C10 as stated fails for a destination node whose name is the empty string: it is a
  trigger of the workflow, and the run engine receives the run data of the request.
\<close>

theorem executeManually_empty_destination_counterexample:
  "ManualRunPayload.destinationNode
     (manualRequest (triggerAndSet '''') (Some '''') (Some [''X'' \<mapsto> [JNull]])) = Some '''' \<and>
   find (\<lambda>n. INode.name n = '''') (IWorkflowBase.nodes (triggerAndSet '''')) =
     Some (mkNode '''' ''n8n-nodes-base.scheduleTrigger'') \<and>
   nodeTypes_group (exampleServices (\<lambda>n. []) None) ''n8n-nodes-base.scheduleTrigger'' 1 =
     Inr [''trigger''] \<and>
   map (\<lambda>data. IWorkflowExecutionDataProcess.runData data = None)
     (runPayloads (snd (executeManually (exampleServices (\<lambda>n. []) None)
        (manualRequest (triggerAndSet '''') (Some '''') (Some [''X'' \<mapsto> [JNull]]))
        \<lparr>User.id = ''u1''\<rparr> None None None))) = [False]"
  by (simp add: manual_eval)


section \<open>Error-workflow invoker: properties\<close>

lemmas error_eval =
  executeErrorWorkflow_def executeErrorWorkflow_try_def errorWorkflowInstance_def
  failedNodeOf_def fullExecutionData_def findErrorTrigger_def getNode_def
  rejectingServices_def failingRunServices_def nullRejectingServices_def
  errorWorkflow_def disabledTriggerWorkflow_def failureData_def
  exampleServices_def mkWorkflow_def mkNode_def Let_def




text \<open>
  When an exception leaves the \<^verbatim>\<open>try\<close> block and its message can be read, it is reported
  and logged, and the invoker returns. The invoker raises exactly when the value thrown
  into its handler is \<^verbatim>\<open>null\<close> or \<^verbatim>\<open>undefined\<close>, and what it raises then is the
  \<^verbatim>\<open>TypeError\<close> of reading the message.
\<close>

lemma executeErrorWorkflow_logs:
  fixes workflowId :: string
  assumes "executeErrorWorkflow_try this workflowId workflowErrorData runningProject =
             (Inl error, events)"
    and "message error = Inr error_message"
  shows "executeErrorWorkflow this workflowId workflowErrorData runningProject =
           (Inr (),
            events @
            [ErrorReporterError error,
             LoggerError
               (''Calling Error Workflow for '' @ dquote @
                interpolate (ErrorDataWorkflow.id (workflow workflowErrorData)) @ dquote @
                '': '' @ dquote @ error_message @ dquote)])"
  using assms by (simp add: executeErrorWorkflow_def)

lemma message_raises_iff:
  "(\<exists>raised. message error = Inl raised) = (error = Thrown_null \<or> error = Thrown_undefined)"
  by (cases error) simp_all

lemma executeErrorWorkflow_raises_iff:
  fixes workflowId :: string
  shows "(fst (executeErrorWorkflow this workflowId workflowErrorData runningProject) \<noteq> Inr ()) =
         (fst (executeErrorWorkflow_try this workflowId workflowErrorData runningProject)
            \<in> {Inl Thrown_null, Inl Thrown_undefined})"
proof (cases "executeErrorWorkflow_try this workflowId workflowErrorData runningProject")
  case (Pair result events)
  show ?thesis
  proof (cases result)
    case (Inl error)
    with Pair show ?thesis
      by (cases error) (simp_all add: executeErrorWorkflow_def)
  next
    case (Inr returned)
    with Pair show ?thesis
      by (simp add: executeErrorWorkflow_def)
  qed
qed

text \<open>
  Claim C9, evaluated where it fails. The lookup of the error workflow in the workflow
  store is rejected with \<^verbatim>\<open>null\<close>. The handler of the invoker reports the value and then
  reads \<^verbatim>\<open>error.message\<close> for the log entry: the \<^verbatim>\<open>TypeError\<close> of that read leaves
  the invoker, and nothing is logged.
\<close>

theorem executeErrorWorkflow_raises_on_null:
  "executeErrorWorkflow nullRejectingServices ''err'' failureData \<lparr>Project.id = ''p1''\<rparr> =
     (Inl (TypeError ''Cannot read properties of null (reading 'message')''),
      [ErrorReporterError Thrown_null])"
  by (simp add: error_eval)

text \<open>
  When the run engine fails with an error object, the exception is reported and logged,
  and the invoker returns.
\<close>

lemma executeErrorWorkflow_failing_run:
  "executeErrorWorkflow failingRunServices ''err'' failureData \<lparr>Project.id = ''p1''\<rparr> =
     (Inr (),
      [Run (errorRunData errorWorkflow
              (mkNode ''Error Trigger'' ''n8n-nodes-base.errorTrigger'') failureData
              \<lparr>Project.id = ''p1''\<rparr>),
       ErrorReporterError (Error ''queue down''),
       LoggerError
         (''Calling Error Workflow for '' @ dquote @ ''failing'' @ dquote @ '': '' @
          dquote @ ''queue down'' @ dquote)])"
  by (simp add: error_eval)

end
